theory Spec2Isabelle
  imports Main "HOL-Library.Multiset"
begin

section \<open>Library values the handlers rely on\<close>

text \<open>
  Instants and durations are counted in nanoseconds, the unit of Go's \<open>time.Duration\<close>.
  \<open>t.Sub(u)\<close> saturates at the bounds of a signed 64-bit duration, and
  \<open>time.Since(t)\<close> is \<open>time.Now().Sub(t)\<close>.

  A handler that reads the clock once takes that reading as its argument \<open>now\<close>. A
  handler that reads it several times takes \<open>clock\<close>, where \<open>clock k\<close> is the reading
  number \<open>k\<close> (from 0) in the order the handler takes them, the store's
  \<open>CURRENT_TIMESTAMP\<close> included.
\<close>

type_synonym Time = int
type_synonym Duration = int
type_synonym clock = "nat \<Rightarrow> Time"

definition Hour :: Duration where
  "Hour = 3600 * 1000000000"

definition maxDuration :: Duration where
  "maxDuration = 2 ^ 63 - 1"

definition minDuration :: Duration where
  "minDuration = - (2 ^ 63)"

definition time_Sub :: "Time \<Rightarrow> Time \<Rightarrow> Duration" where
  "time_Sub t u =
     (let d = t - u in
      if d > maxDuration then maxDuration
      else if d < minDuration then minDuration
      else d)"

definition time_Since :: "Time \<Rightarrow> Time \<Rightarrow> Duration" where
  "time_Since now t = time_Sub now t"

text \<open>The zero value of \<open>time.Time\<close>: 1 January of year 1, 00:00:00 UTC.\<close>

definition zero_Time :: Time where
  "zero_Time = - 62135596800 * 1000000000"

text \<open>
  SQLite's \<open>CURRENT_TIMESTAMP\<close> is the current UTC time as text with a resolution of
  one second, which the driver reads back as an instant.
\<close>

definition CURRENT_TIMESTAMP :: "Time \<Rightarrow> Time" where
  "CURRENT_TIMESTAMP now = (now div 1000000000) * 1000000000"

text \<open>Errors of the library calls; \<open>err.Error()\<close> is kept as the error value itself.\<close>

datatype go_error =
    ErrSyntax string
  | ErrRange string
  | ErrJSON
  | ErrRequired "string list"
  | ErrNoRows
  | ErrConstraint string
  | ErrFull

text \<open>
  \<open>strconv.Atoi\<close>: an optional sign, then at least one decimal digit. The digits are
  read from the left into an unsigned 64-bit number: a character that is not a digit is
  a syntax error, and a digit that makes the number overflow is a range error, whichever
  comes first. A number that was read in full is then tested against the 64-bit \<open>int\<close>.
  The error names the whole input.
\<close>

definition is_digit :: "char \<Rightarrow> bool" where
  "is_digit c = (48 \<le> (of_char c :: nat) \<and> (of_char c :: nat) \<le> 57)"

definition digit_val :: "char \<Rightarrow> int" where
  "digit_val c = int (of_char c) - 48"

fun ParseUint_digits :: "string \<Rightarrow> int \<Rightarrow> string \<Rightarrow> go_error + int" where
  "ParseUint_digits s0 n [] = Inr n"
| "ParseUint_digits s0 n (c # cs) =
     (if \<not> is_digit c then Inl (ErrSyntax s0)
      else if n \<ge> (2 ^ 64 - 1) div 10 + 1 then Inl (ErrRange s0)
      else let n1 = n * 10 + digit_val c
           in if n1 > 2 ^ 64 - 1 then Inl (ErrRange s0)
              else ParseUint_digits s0 n1 cs)"

definition Atoi :: "string \<Rightarrow> go_error + int" where
  "Atoi s0 =
     (let neg = (case s0 of [] \<Rightarrow> False | c # _ \<Rightarrow> c = CHR ''-'');
          s = (case s0 of [] \<Rightarrow> []
               | c # cs \<Rightarrow> if c = CHR ''-'' \<or> c = CHR ''+'' then cs else s0)
      in if s = [] then Inl (ErrSyntax s0)
         else (case ParseUint_digits s0 0 s of
                 Inl err \<Rightarrow> Inl err
               | Inr un \<Rightarrow>
                   if \<not> neg \<and> un \<ge> 2 ^ 63 then Inl (ErrRange s0)
                   else if neg \<and> un > 2 ^ 63 then Inl (ErrRange s0)
                   else Inr (if neg then - un else un)))"

section \<open>Data model\<close>

text \<open>The structs \<open>Survey\<close>, \<open>SurveyResponse\<close> and \<open>UserResponse\<close>.\<close>

record Survey =
  S_ID :: int
  S_Title :: string
  S_Description :: string
  S_CreatedAt :: Time
  S_UpdatedAt :: Time
  S_ResponsesCount :: int

record SurveyResponse =
  R_ID :: int
  R_SurveyID :: int
  R_UserIdentifier :: string
  R_ResponseData :: string
  R_CreatedAt :: Time
  R_UpdatedAt :: Time
  R_Editable :: bool

record UserResponse =
  U_ID :: int
  U_Survey :: Survey
  U_UserIdentifier :: string
  U_ResponseData :: string
  U_CreatedAt :: Time
  U_UpdatedAt :: Time
  U_Editable :: bool

text \<open>
  The request structs. A \<open>json.RawMessage\<close> of a request is \<open>None\<close> when the field
  is absent from the body (the nil slice) and \<open>Some\<close> of the raw JSON text otherwise.
\<close>

record CreateSurveyRequest =
  Title :: string
  Description :: string

record CreateResponseRequest =
  UserIdentifier :: string
  ResponseData :: "string option"

record UpdateResponseRequest =
  NewResponseData :: "string option"

text \<open>
  A request body either does not decode into the request struct, or decodes into it with
  the zero value for every absent field.
\<close>

datatype 'a body = Malformed | Decoded 'a

text \<open>
  \<open>c.ShouldBindJSON(&req)\<close> decodes the body and then checks the \<open>required\<close> tags of
  the struct: a required string must not be empty and a required raw message must not be
  nil. \<open>UpdateResponseRequest\<close> carries no such tag.
\<close>

definition ShouldBindJSON_CreateSurveyRequest ::
  "CreateSurveyRequest body \<Rightarrow> go_error + CreateSurveyRequest" where
  "ShouldBindJSON_CreateSurveyRequest b =
     (case b of
        Malformed \<Rightarrow> Inl ErrJSON
      | Decoded req \<Rightarrow>
          (let missing = (if Title req = [] then [''Title''] else []) @
                         (if Description req = [] then [''Description''] else [])
           in if missing = [] then Inr req else Inl (ErrRequired missing)))"

definition ShouldBindJSON_CreateResponseRequest ::
  "CreateResponseRequest body \<Rightarrow> go_error + CreateResponseRequest" where
  "ShouldBindJSON_CreateResponseRequest b =
     (case b of
        Malformed \<Rightarrow> Inl ErrJSON
      | Decoded req \<Rightarrow>
          (let missing = (if UserIdentifier req = [] then [''UserIdentifier''] else []) @
                         (if ResponseData req = None then [''ResponseData''] else [])
           in if missing = [] then Inr req else Inl (ErrRequired missing)))"

definition ShouldBindJSON_UpdateResponseRequest ::
  "UpdateResponseRequest body \<Rightarrow> go_error + UpdateResponseRequest" where
  "ShouldBindJSON_UpdateResponseRequest b =
     (case b of Malformed \<Rightarrow> Inl ErrJSON | Decoded req \<Rightarrow> Inr req)"

text \<open>The reply \<open>c.JSON(code, APIResponse{...})\<close> of a handler.\<close>

datatype payload =
    NoData
  | OneSurvey Survey
  | Surveys "Survey list"
  | OneResponse SurveyResponse
  | Responses "SurveyResponse list"
  | UserResponses "UserResponse list"

datatype err_text = Msg string | Error go_error

record APIResponse =
  Status :: string
  Message :: string
  Data :: payload
  Errors :: "err_text list"

type_synonym reply = "nat \<times> APIResponse"

abbreviation StatusOK :: nat where "StatusOK \<equiv> 200"
abbreviation StatusCreated :: nat where "StatusCreated \<equiv> 201"
abbreviation StatusBadRequest :: nat where "StatusBadRequest \<equiv> 400"
abbreviation StatusNotFound :: nat where "StatusNotFound \<equiv> 404"
abbreviation StatusUnprocessableEntity :: nat where "StatusUnprocessableEntity \<equiv> 422"
abbreviation StatusInternalServerError :: nat where "StatusInternalServerError \<equiv> 500"

section \<open>The store\<close>

text \<open>
  The two tables of \<open>initDatabase\<close>, rows in rowid order, with the counters that
  \<open>AUTOINCREMENT\<close> keeps. Every column the handlers write is \<open>NOT NULL\<close> or always
  given a value, so a row holds plain values. The store is in memory: a statement fails
  only on a constraint of the schema or when the rowids of a table are used up.
\<close>

record survey_row =
  sv_id :: int
  sv_title :: string
  sv_description :: string
  sv_created_at :: Time
  sv_updated_at :: Time

record response_row =
  sr_id :: int
  sr_survey_id :: int
  sr_user_identifier :: string
  sr_response_data :: string
  sr_created_at :: Time
  sr_updated_at :: Time

record database =
  surveys :: "survey_row list"
  survey_responses :: "response_row list"
  surveys_seq :: int
  survey_responses_seq :: int

definition empty_database :: database where
  "empty_database =
     \<lparr>surveys = [], survey_responses = [], surveys_seq = 0, survey_responses_seq = 0\<rparr>"

text \<open>
  The rowid an \<open>AUTOINCREMENT\<close> key gets: one more than the largest rowid in the table
  (1 for an empty table), and at least one more than the largest ever allotted, which the
  counter of the table records. Once the largest possible rowid has been in use the
  insert fails with \<open>SQLITE_FULL\<close>.
\<close>

definition MAX_ROWID :: int where
  "MAX_ROWID = 2 ^ 63 - 1"

fun max_rowid :: "int list \<Rightarrow> int option" where
  "max_rowid [] = None"
| "max_rowid (i # ids) = (case max_rowid ids of None \<Rightarrow> Some i | Some m \<Rightarrow> Some (max i m))"

definition next_rowid :: "int \<Rightarrow> int list \<Rightarrow> go_error + int" where
  "next_rowid seq ids =
     (case max_rowid ids of
        None \<Rightarrow>
          if seq \<ge> MAX_ROWID then Inl ErrFull
          else Inr (max 1 (seq + 1))
      | Some m \<Rightarrow>
          if m \<ge> MAX_ROWID \<or> seq \<ge> MAX_ROWID then Inl ErrFull
          else Inr (max (m + 1) (seq + 1)))"

text \<open>\<open>SELECT EXISTS(SELECT 1 FROM surveys WHERE id = ?)\<close>\<close>

definition survey_exists :: "database \<Rightarrow> int \<Rightarrow> bool" where
  "survey_exists db sID = list_ex (\<lambda>s. sv_id s = sID) (surveys db)"

text \<open>\<open>INSERT INTO surveys (title, description, created_at, updated_at)\<close>, with the new id.\<close>

definition insert_survey ::
  "database \<Rightarrow> string \<Rightarrow> string \<Rightarrow> Time \<Rightarrow> go_error + int \<times> database" where
  "insert_survey db title description ts =
     (case next_rowid (surveys_seq db) (map sv_id (surveys db)) of
        Inl err \<Rightarrow> Inl err
      | Inr id' \<Rightarrow>
          (let row = \<lparr>sv_id = id', sv_title = title, sv_description = description,
                      sv_created_at = ts, sv_updated_at = ts\<rparr>
           in Inr (id', db\<lparr>surveys := surveys db @ [row], surveys_seq := id'\<rparr>)))"

text \<open>
  \<open>INSERT INTO survey_responses (survey_id, user_identifier, response_data, created_at,
  updated_at)\<close>. A nil raw message is bound as SQL NULL, which \<open>response_data TEXT NOT
  NULL\<close> rejects.
\<close>

definition insert_response ::
  "database \<Rightarrow> int \<Rightarrow> string \<Rightarrow> string option \<Rightarrow> Time \<Rightarrow> go_error + int \<times> database" where
  "insert_response db sID user data ts =
     (case next_rowid (survey_responses_seq db) (map sr_id (survey_responses db)) of
        Inl err \<Rightarrow> Inl err
      | Inr id' \<Rightarrow>
          (case data of
             None \<Rightarrow>
               Inl (ErrConstraint ''NOT NULL constraint failed: survey_responses.response_data'')
           | Some d \<Rightarrow>
               (let row = \<lparr>sr_id = id', sr_survey_id = sID, sr_user_identifier = user,
                           sr_response_data = d, sr_created_at = ts, sr_updated_at = ts\<rparr>
                in Inr (id', db\<lparr>survey_responses := survey_responses db @ [row],
                               survey_responses_seq := id'\<rparr>))))"

text \<open>
  \<open>UPDATE survey_responses SET response_data = ?, updated_at = CURRENT_TIMESTAMP WHERE
  id = ? AND survey_id = ?\<close>. The statement fails as a whole, changing nothing, when it
  would store NULL into \<open>response_data\<close> of a row it selects.
\<close>

definition update_response ::
  "database \<Rightarrow> string option \<Rightarrow> Time \<Rightarrow> int \<Rightarrow> int \<Rightarrow> go_error + database" where
  "update_response db data ts rID sID =
     (let hit = (\<lambda>r. sr_id r = rID \<and> sr_survey_id r = sID) in
      case data of
        None \<Rightarrow>
          if list_ex hit (survey_responses db)
          then Inl (ErrConstraint ''NOT NULL constraint failed: survey_responses.response_data'')
          else Inr db
      | Some d \<Rightarrow>
          Inr (db\<lparr>survey_responses :=
                    map (\<lambda>r. if hit r then r\<lparr>sr_response_data := d, sr_updated_at := ts\<rparr> else r)
                        (survey_responses db)\<rparr>))"

text \<open>
  \<open>ORDER BY ... DESC\<close>: SQL leaves the order of rows with equal keys open; the model
  keeps them in rowid order.
\<close>

definition order_by_desc :: "('a \<Rightarrow> int) \<Rightarrow> 'a list \<Rightarrow> 'a list" where
  "order_by_desc key rows = sort_key (\<lambda>r. - key r) rows"

text \<open>
  \<open>FROM survey_responses sr JOIN surveys s ON sr.survey_id = s.id\<close>: every response row
  with every survey row of that id.
\<close>

definition join_surveys ::
  "survey_row list \<Rightarrow> response_row list \<Rightarrow> (response_row \<times> survey_row) list" where
  "join_surveys S R =
     concat (map (\<lambda>sr. map (\<lambda>s. (sr, s)) (filter (\<lambda>s. sr_survey_id sr = sv_id s) S)) R)"

text \<open>What \<open>Scan\<close> fills in from a row of \<open>survey_responses\<close>.\<close>

definition scan_response :: "response_row \<Rightarrow> SurveyResponse" where
  "scan_response r =
     \<lparr>R_ID = sr_id r, R_SurveyID = sr_survey_id r, R_UserIdentifier = sr_user_identifier r,
      R_ResponseData = sr_response_data r, R_CreatedAt = sr_created_at r,
      R_UpdatedAt = sr_updated_at r, R_Editable = False\<rparr>"

section \<open>The handlers\<close>

text \<open>
  Each handler takes the store, the clock, the path parameters as the router hands them
  over (text) and the request body, and gives the reply; a handler that writes also gives
  the store afterwards.
\<close>

text \<open>\<open>getSurveys\<close>: all surveys with their response counts, newest first.\<close>

definition getSurveys :: "database \<Rightarrow> reply" where
  "getSurveys db =
     (let rows = order_by_desc sv_created_at (surveys db);
          surveys = map (\<lambda>s.
              \<lparr>S_ID = sv_id s, S_Title = sv_title s, S_Description = sv_description s,
               S_CreatedAt = sv_created_at s, S_UpdatedAt = sv_updated_at s,
               S_ResponsesCount =
                 int (length (filter (\<lambda>sr. sr_survey_id sr = sv_id s) (survey_responses db)))\<rparr>)
            rows
      in (StatusOK, \<lparr>Status = ''success'', Message = [], Data = Surveys surveys, Errors = []\<rparr>))"

text \<open>\<open>getSurvey\<close>: one survey with its response count.\<close>

definition getSurvey :: "database \<Rightarrow> string \<Rightarrow> reply" where
  "getSurvey db id' =
     (case Atoi id' of
        Inl err \<Rightarrow>
          (StatusBadRequest,
           \<lparr>Status = ''error'', Message = ''Invalid survey ID'', Data = NoData,
            Errors = [Error err]\<rparr>)
      | Inr surveyID \<Rightarrow>
          (case find (\<lambda>s. sv_id s = surveyID) (surveys db) of
             None \<Rightarrow>
               (StatusNotFound,
                \<lparr>Status = ''error'', Message = ''Survey not found'', Data = NoData,
                 Errors = []\<rparr>)
           | Some s \<Rightarrow>
               (StatusOK,
                \<lparr>Status = ''success'', Message = [],
                 Data = OneSurvey
                   \<lparr>S_ID = sv_id s, S_Title = sv_title s, S_Description = sv_description s,
                    S_CreatedAt = sv_created_at s, S_UpdatedAt = sv_updated_at s,
                    S_ResponsesCount =
                      int (length (filter (\<lambda>sr. sr_survey_id sr = sv_id s)
                                          (survey_responses db)))\<rparr>,
                 Errors = []\<rparr>)))"

text \<open>\<open>createSurvey\<close>: bind, validate, insert, read the new row back.\<close>

definition createSurvey ::
  "database \<Rightarrow> Time \<Rightarrow> CreateSurveyRequest body \<Rightarrow> reply \<times> database" where
  "createSurvey db now b =
     (case ShouldBindJSON_CreateSurveyRequest b of
        Inl err \<Rightarrow>
          ((StatusBadRequest,
            \<lparr>Status = ''error'', Message = ''Invalid request data'', Data = NoData,
             Errors = [Error err]\<rparr>), db)
      | Inr req \<Rightarrow>
          (let errors = [];
               errors = (if length (Title req) < 3
                         then errors @ [''Title must be at least 3 characters long'']
                         else errors);
               errors = (if length (Title req) > 255
                         then errors @ [''Title must be less than 255 characters'']
                         else errors);
               errors = (if length (Description req) > 1000
                         then errors @ [''Description must be less than 1000 characters'']
                         else errors)
           in if length errors > 0
              then ((StatusUnprocessableEntity,
                     \<lparr>Status = ''error'', Message = ''Failed to create survey'', Data = NoData,
                      Errors = map Msg errors\<rparr>), db)
              else (case insert_survey db (Title req) (Description req) (CURRENT_TIMESTAMP now) of
                      Inl err \<Rightarrow>
                        ((StatusInternalServerError,
                          \<lparr>Status = ''error'', Message = ''Failed to create survey'',
                           Data = NoData, Errors = [Error err]\<rparr>), db)
                    | Inr (id', db') \<Rightarrow>
                        (case find (\<lambda>s. sv_id s = id') (surveys db') of
                           None \<Rightarrow>
                             ((StatusInternalServerError,
                               \<lparr>Status = ''error'', Message = ''Failed to fetch created survey'',
                                Data = NoData, Errors = [Error ErrNoRows]\<rparr>), db')
                         | Some s \<Rightarrow>
                             ((StatusCreated,
                               \<lparr>Status = ''success'', Message = ''Survey created successfully'',
                                Data = OneSurvey
                                  \<lparr>S_ID = sv_id s, S_Title = sv_title s,
                                   S_Description = sv_description s,
                                   S_CreatedAt = sv_created_at s, S_UpdatedAt = sv_updated_at s,
                                   S_ResponsesCount = 0\<rparr>,
                                Errors = []\<rparr>), db')))))"

text \<open>
  \<open>getSurveyResponses\<close>: the responses of one survey, last updated first. The clock is
  read once for every row, in the order of the rows.
\<close>

definition getSurveyResponses :: "database \<Rightarrow> clock \<Rightarrow> string \<Rightarrow> reply" where
  "getSurveyResponses db clock surveyID =
     (case Atoi surveyID of
        Inl err \<Rightarrow>
          (StatusBadRequest,
           \<lparr>Status = ''error'', Message = ''Invalid survey ID'', Data = NoData,
            Errors = [Error err]\<rparr>)
      | Inr id' \<Rightarrow>
          if \<not> survey_exists db id'
          then (StatusNotFound,
                \<lparr>Status = ''error'', Message = ''Survey not found'', Data = NoData,
                 Errors = []\<rparr>)
          else
            (let rows = order_by_desc sr_updated_at
                          (filter (\<lambda>r. sr_survey_id r = id') (survey_responses db));
                 responses = map (\<lambda>(k, r).
                     (scan_response r)
                       \<lparr>R_Editable := time_Since (clock k) (sr_created_at r) < 24 * Hour\<rparr>)
                   (enumerate 0 rows)
             in (StatusOK,
                 \<lparr>Status = ''success'', Message = [], Data = Responses responses,
                  Errors = []\<rparr>)))"

text \<open>\<open>getSurveyResponse\<close>: one response, looked up by its id and its survey's id.\<close>

definition getSurveyResponse :: "database \<Rightarrow> Time \<Rightarrow> string \<Rightarrow> string \<Rightarrow> reply" where
  "getSurveyResponse db now surveyID responseID =
     (case Atoi surveyID of
        Inl err \<Rightarrow>
          (StatusBadRequest,
           \<lparr>Status = ''error'', Message = ''Invalid survey ID'', Data = NoData,
            Errors = [Error err]\<rparr>)
      | Inr sID \<Rightarrow>
          (case Atoi responseID of
             Inl err \<Rightarrow>
               (StatusBadRequest,
                \<lparr>Status = ''error'', Message = ''Invalid response ID'', Data = NoData,
                 Errors = [Error err]\<rparr>)
           | Inr rID \<Rightarrow>
               (case find (\<lambda>r. sr_id r = rID \<and> sr_survey_id r = sID) (survey_responses db) of
                  None \<Rightarrow>
                    (StatusNotFound,
                     \<lparr>Status = ''error'', Message = ''Survey response not found'',
                      Data = NoData, Errors = []\<rparr>)
                | Some row \<Rightarrow>
                    (let response = scan_response row;
                         response = response
                           \<lparr>R_Editable := time_Since now (R_CreatedAt response) < 24 * Hour\<rparr>
                     in (StatusOK,
                         \<lparr>Status = ''success'', Message = [], Data = OneResponse response,
                          Errors = []\<rparr>)))))"

text \<open>
  \<open>createSurveyResponse\<close>: the survey has to exist; then bind, validate, insert, read the
  new row back.
\<close>

definition createSurveyResponse ::
  "database \<Rightarrow> Time \<Rightarrow> string \<Rightarrow> CreateResponseRequest body \<Rightarrow> reply \<times> database" where
  "createSurveyResponse db now surveyID b =
     (case Atoi surveyID of
        Inl err \<Rightarrow>
          ((StatusBadRequest,
            \<lparr>Status = ''error'', Message = ''Invalid survey ID'', Data = NoData,
             Errors = [Error err]\<rparr>), db)
      | Inr sID \<Rightarrow>
          if \<not> survey_exists db sID
          then ((StatusNotFound,
                 \<lparr>Status = ''error'', Message = ''Survey not found'', Data = NoData,
                  Errors = []\<rparr>), db)
          else
            (case ShouldBindJSON_CreateResponseRequest b of
               Inl err \<Rightarrow>
                 ((StatusBadRequest,
                   \<lparr>Status = ''error'', Message = ''Invalid request data'', Data = NoData,
                    Errors = [Error err]\<rparr>), db)
             | Inr req \<Rightarrow>
                 (let errors = [];
                      errors = (if length (UserIdentifier req) < 3
                                then errors @
                                  [''User identifier must be at least 3 characters long'']
                                else errors);
                      errors = (if length (UserIdentifier req) > 100
                                then errors @
                                  [''User identifier must be less than 100 characters'']
                                else errors)
                  in if length errors > 0
                     then ((StatusUnprocessableEntity,
                            \<lparr>Status = ''error'', Message = ''Failed to submit survey response'',
                             Data = NoData, Errors = map Msg errors\<rparr>), db)
                     else
                       (case insert_response db sID (UserIdentifier req) (ResponseData req)
                               (CURRENT_TIMESTAMP now) of
                          Inl err \<Rightarrow>
                            ((StatusInternalServerError,
                              \<lparr>Status = ''error'',
                               Message = ''Failed to submit survey response'',
                               Data = NoData, Errors = [Error err]\<rparr>), db)
                        | Inr (id', db') \<Rightarrow>
                            (case find (\<lambda>r. sr_id r = id') (survey_responses db') of
                               None \<Rightarrow>
                                 ((StatusInternalServerError,
                                   \<lparr>Status = ''error'',
                                    Message = ''Failed to fetch created response'',
                                    Data = NoData, Errors = [Error ErrNoRows]\<rparr>), db')
                             | Some row \<Rightarrow>
                                 (let response = scan_response row;
                                      response = response\<lparr>R_Editable := True\<rparr>
                                  in ((StatusCreated,
                                       \<lparr>Status = ''success'',
                                        Message = ''Survey response submitted successfully'',
                                        Data = OneResponse response, Errors = []\<rparr>), db')))))))"

text \<open>
  \<open>updateSurveyResponse\<close>: look the response up under its survey, refuse it once it is 24
  hours old, then bind the body and write. The clock is read for the window test, by the
  store for \<open>updated_at\<close>, and for the flag of the reply.
\<close>

definition updateSurveyResponse ::
  "database \<Rightarrow> clock \<Rightarrow> string \<Rightarrow> string \<Rightarrow> UpdateResponseRequest body \<Rightarrow> reply \<times> database"
  where
  "updateSurveyResponse db clock surveyID responseID b =
     (case Atoi surveyID of
        Inl err \<Rightarrow>
          ((StatusBadRequest,
            \<lparr>Status = ''error'', Message = ''Invalid survey ID'', Data = NoData,
             Errors = [Error err]\<rparr>), db)
      | Inr sID \<Rightarrow>
          (case Atoi responseID of
             Inl err \<Rightarrow>
               ((StatusBadRequest,
                 \<lparr>Status = ''error'', Message = ''Invalid response ID'', Data = NoData,
                  Errors = [Error err]\<rparr>), db)
           | Inr rID \<Rightarrow>
               (case find (\<lambda>r. sr_id r = rID \<and> sr_survey_id r = sID) (survey_responses db) of
                  None \<Rightarrow>
                    ((StatusNotFound,
                      \<lparr>Status = ''error'', Message = ''Survey response not found'',
                       Data = NoData, Errors = []\<rparr>), db)
                | Some row \<Rightarrow>
                    (let response = scan_response row in
                     if time_Since (clock 0) (R_CreatedAt response) \<ge> 24 * Hour
                     then ((StatusUnprocessableEntity,
                            \<lparr>Status = ''error'',
                             Message = ''Response cannot be edited after 24 hours'',
                             Data = NoData, Errors = []\<rparr>), db)
                     else
                       (case ShouldBindJSON_UpdateResponseRequest b of
                          Inl err \<Rightarrow>
                            ((StatusBadRequest,
                              \<lparr>Status = ''error'', Message = ''Invalid request data'',
                               Data = NoData, Errors = [Error err]\<rparr>), db)
                        | Inr req \<Rightarrow>
                            (case update_response db (NewResponseData req)
                                    (CURRENT_TIMESTAMP (clock 1)) rID sID of
                               Inl err \<Rightarrow>
                                 ((StatusInternalServerError,
                                   \<lparr>Status = ''error'',
                                    Message = ''Failed to update survey response'',
                                    Data = NoData, Errors = [Error err]\<rparr>), db)
                             | Inr db' \<Rightarrow>
                                 (case find (\<lambda>r. sr_id r = rID) (survey_responses db') of
                                    None \<Rightarrow>
                                      ((StatusInternalServerError,
                                        \<lparr>Status = ''error'',
                                         Message = ''Failed to fetch updated response'',
                                         Data = NoData, Errors = [Error ErrNoRows]\<rparr>), db')
                                  | Some row' \<Rightarrow>
                                      (let response = scan_response row';
                                           response = response
                                             \<lparr>R_Editable :=
                                                time_Since (clock 2) (R_CreatedAt response)
                                                  < 24 * Hour\<rparr>
                                       in ((StatusOK,
                                            \<lparr>Status = ''success'',
                                             Message = ''Survey response updated successfully'',
                                             Data = OneResponse response, Errors = []\<rparr>),
                                           db')))))))))"

text \<open>
  \<open>getUserResponses\<close>: the responses of one user joined with their surveys, last updated
  first. The embedded survey carries the id, title and description of the joined row and
  the zero value in its other fields. The clock is read once for every row, in the order
  of the rows.
\<close>

definition getUserResponses :: "database \<Rightarrow> clock \<Rightarrow> string \<Rightarrow> reply" where
  "getUserResponses db clock userIdentifier =
     (let joined = join_surveys (surveys db) (survey_responses db);
          rows = order_by_desc (\<lambda>(sr, s). sr_updated_at sr)
                   (filter (\<lambda>(sr, s). sr_user_identifier sr = userIdentifier) joined);
          responses = map (\<lambda>(k, sr, s).
              \<lparr>U_ID = sr_id sr,
               U_Survey = \<lparr>S_ID = sv_id s, S_Title = sv_title s,
                           S_Description = sv_description s, S_CreatedAt = zero_Time,
                           S_UpdatedAt = zero_Time, S_ResponsesCount = 0\<rparr>,
               U_UserIdentifier = sr_user_identifier sr,
               U_ResponseData = sr_response_data sr,
               U_CreatedAt = sr_created_at sr, U_UpdatedAt = sr_updated_at sr,
               U_Editable = time_Since (clock k) (sr_created_at sr) < 24 * Hour\<rparr>)
            (enumerate 0 rows)
      in (StatusOK,
          \<lparr>Status = ''success'', Message = [], Data = UserResponses responses,
           Errors = []\<rparr>))"

section \<open>A small store for the examples\<close>

text \<open>
  Two surveys; the first has two responses by different users, made at instant 0 and one
  hour later; the second survey has none.
\<close>

definition response_1 :: response_row where
  "response_1 =
     \<lparr>sr_id = 1, sr_survey_id = 1, sr_user_identifier = ''testuser'',
      sr_response_data = ''[5]'', sr_created_at = 0, sr_updated_at = 0\<rparr>"

definition response_2 :: response_row where
  "response_2 =
     \<lparr>sr_id = 2, sr_survey_id = 1, sr_user_identifier = ''ab'',
      sr_response_data = ''[3]'', sr_created_at = Hour, sr_updated_at = Hour\<rparr>"

definition sample_database :: database where
  "sample_database =
     \<lparr>surveys =
        [\<lparr>sv_id = 1, sv_title = ''Test Survey'', sv_description = ''Test Description'',
          sv_created_at = 0, sv_updated_at = 0\<rparr>,
         \<lparr>sv_id = 2, sv_title = ''Second Survey'', sv_description = ''No answers yet'',
          sv_created_at = Hour, sv_updated_at = Hour\<rparr>],
      survey_responses = [response_1, response_2],
      surveys_seq = 2, survey_responses_seq = 2\<rparr>"


section \<open>Keys of the schema\<close>

text \<open>
  The schema declares \<open>surveys.id\<close> a primary key and \<open>survey_responses.survey_id\<close> a
  reference to it. The handlers keep both: ids are never reused and a response is only
  inserted for a survey that exists.
\<close>

definition referential_integrity :: "database \<Rightarrow> bool" where
  "referential_integrity db =
     (distinct (map sv_id (surveys db))
      \<and> (\<forall>r \<in> set (survey_responses db). sr_survey_id r \<in> sv_id ` set (surveys db)))"

section \<open>Facts about the library values\<close>

lemma Atoi_1: "Atoi ''1'' = Inr 1"
  by (simp add: Atoi_def is_digit_def digit_val_def)

lemma Atoi_2: "Atoi ''2'' = Inr 2"
  by (simp add: Atoi_def is_digit_def digit_val_def)

lemma Atoi_7: "Atoi ''7'' = Inr 7"
  by (simp add: Atoi_def is_digit_def digit_val_def)

text \<open>24 hours lie inside the range of a duration, so saturation never changes the test.\<close>

lemma Since_less_24h: "time_Since now t < 24 * Hour \<longleftrightarrow> now - t < 24 * Hour"
  by (simp add: time_Since_def time_Sub_def Hour_def maxDuration_def minDuration_def Let_def)

lemma Since_ge_24h: "time_Since now t \<ge> 24 * Hour \<longleftrightarrow> now - t \<ge> 24 * Hour"
  by (simp add: time_Since_def time_Sub_def Hour_def maxDuration_def minDuration_def Let_def)

lemma find_None_iff_no_row: "find P xs = None \<longleftrightarrow> (\<forall>x \<in> set xs. \<not> P x)"
  by (induction xs) auto

lemma find_Some_list_ex: "find P xs = Some x \<Longrightarrow> list_ex P xs"
  by (auto simp: find_Some_iff list_ex_iff)

lemma find_after_map:
  assumes "find P xs = Some x" and "\<And>r. P r \<Longrightarrow> Q (f r)"
  shows "\<exists>y. find Q (map f xs) = Some y"
proof -
  from assms(1) have "x \<in> set xs" and "P x"
    by (auto simp: find_Some_iff)
  then have "f x \<in> set (map f xs)" and "Q (f x)"
    using assms(2) by auto
  then have "find Q (map f xs) \<noteq> None"
    by (auto simp: find_None_iff_no_row)
  then show ?thesis by auto
qed

lemma find_response_1:
  "find (\<lambda>r. sr_id r = 1 \<and> sr_survey_id r = 1) (survey_responses sample_database)
     = Some response_1"
  by (simp add: sample_database_def response_1_def)

section \<open>The edit window\<close>

lemma update_with_data_reply:
  assumes "Atoi surveyID = Inr sID" and "Atoi responseID = Inr rID"
    and "find (\<lambda>r. sr_id r = rID \<and> sr_survey_id r = sID) (survey_responses db) = Some row"
    and "clock 0 - sr_created_at row < 24 * Hour"
  shows "\<exists>row'.
      find (\<lambda>r. sr_id r = rID)
           (map (\<lambda>r. if sr_id r = rID \<and> sr_survey_id r = sID
                     then r\<lparr>sr_response_data := d,
                            sr_updated_at := CURRENT_TIMESTAMP (clock 1)\<rparr>
                     else r)
                (survey_responses db)) = Some row'
      \<and> updateSurveyResponse db clock surveyID responseID
            (Decoded \<lparr>NewResponseData = Some d\<rparr>) =
          ((StatusOK,
            \<lparr>Status = ''success'', Message = ''Survey response updated successfully'',
             Data = OneResponse
               ((scan_response row')
                  \<lparr>R_Editable := clock 2 - sr_created_at row' < 24 * Hour\<rparr>),
             Errors = []\<rparr>),
           db\<lparr>survey_responses :=
                map (\<lambda>r. if sr_id r = rID \<and> sr_survey_id r = sID
                          then r\<lparr>sr_response_data := d,
                                 sr_updated_at := CURRENT_TIMESTAMP (clock 1)\<rparr>
                          else r)
                    (survey_responses db)\<rparr>)"
proof -
  define f where "f = (\<lambda>r::response_row.
      if sr_id r = rID \<and> sr_survey_id r = sID
      then r\<lparr>sr_response_data := d, sr_updated_at := CURRENT_TIMESTAMP (clock 1)\<rparr>
      else r)"
  have "\<exists>y. find (\<lambda>r. sr_id r = rID) (map f (survey_responses db)) = Some y"
    by (rule find_after_map [OF assms(3)]) (simp add: f_def)
  then obtain row' where
    found: "find (\<lambda>r. sr_id r = rID) (map f (survey_responses db)) = Some row'"
    by blast
  have written: "update_response db (Some d) (CURRENT_TIMESTAMP (clock 1)) rID sID =
      Inr (db\<lparr>survey_responses := map f (survey_responses db)\<rparr>)"
    by (simp add: update_response_def f_def)
  have "updateSurveyResponse db clock surveyID responseID
            (Decoded \<lparr>NewResponseData = Some d\<rparr>) =
          ((StatusOK,
            \<lparr>Status = ''success'', Message = ''Survey response updated successfully'',
             Data = OneResponse
               ((scan_response row')
                  \<lparr>R_Editable := clock 2 - sr_created_at row' < 24 * Hour\<rparr>),
             Errors = []\<rparr>),
           db\<lparr>survey_responses := map f (survey_responses db)\<rparr>)"
    using assms found written
    by (simp add: updateSurveyResponse_def Let_def Since_ge_24h Since_less_24h
          scan_response_def ShouldBindJSON_UpdateResponseRequest_def)
  with found show ?thesis
    unfolding f_def by blast
qed

text \<open>
  Claim C1. A response is editable exactly while \<open>now - createdAt < 24 hours\<close>, strictly,
  \<open>now\<close> being the clock reading taken for that response; at 24 hours sharp it is not
  editable. Every place that sets the flag from the clock uses this test:
  \<open>getSurveyResponse\<close> for the response it finds, \<open>getSurveyResponses\<close> and
  \<open>getUserResponses\<close> for every entry of their lists, and \<open>updateSurveyResponse\<close> for
  the response it returns. \<open>updateSurveyResponse\<close> answers 422 (which it does for an
  expired window only) exactly when the same test fails, whatever the body.
\<close>

theorem editable_is_strict_24h_window:
  "(Atoi surveyID = Inr sID \<and> Atoi responseID = Inr rID
    \<and> find (\<lambda>r. sr_id r = rID \<and> sr_survey_id r = sID) (survey_responses db) = Some row \<longrightarrow>
      getSurveyResponse db now surveyID responseID =
        (StatusOK,
         \<lparr>Status = ''success'', Message = [],
          Data = OneResponse
            ((scan_response row)\<lparr>R_Editable := now - sr_created_at row < 24 * Hour\<rparr>),
          Errors = []\<rparr>)
      \<and> (fst (fst (updateSurveyResponse db clock surveyID responseID b))
            = StatusUnprocessableEntity
         \<longleftrightarrow> \<not> (clock 0 - sr_created_at row < 24 * Hour))
      \<and> (clock 0 - sr_created_at row < 24 * Hour \<longrightarrow>
           (\<exists>row'. fst (updateSurveyResponse db clock surveyID responseID
                          (Decoded \<lparr>NewResponseData = Some d\<rparr>)) =
              (StatusOK,
               \<lparr>Status = ''success'', Message = ''Survey response updated successfully'',
                Data = OneResponse
                  ((scan_response row')
                     \<lparr>R_Editable := clock 2 - sr_created_at row' < 24 * Hour\<rparr>),
                Errors = []\<rparr>))))
   \<and> (Atoi surveyID = Inr sID \<and> sID \<in> sv_id ` set (surveys db) \<longrightarrow>
      getSurveyResponses db clock surveyID =
        (StatusOK,
         \<lparr>Status = ''success'', Message = [],
          Data = Responses
            (map (\<lambda>(k, r).
                    (scan_response r)\<lparr>R_Editable := clock k - sr_created_at r < 24 * Hour\<rparr>)
                 (enumerate 0
                    (order_by_desc sr_updated_at
                       (filter (\<lambda>r. sr_survey_id r = sID) (survey_responses db))))),
          Errors = []\<rparr>))
   \<and> getUserResponses db clock userIdentifier =
        (StatusOK,
         \<lparr>Status = ''success'', Message = [],
          Data = UserResponses
            (map (\<lambda>(k, sr, s).
                    \<lparr>U_ID = sr_id sr,
                     U_Survey = \<lparr>S_ID = sv_id s, S_Title = sv_title s,
                                 S_Description = sv_description s, S_CreatedAt = zero_Time,
                                 S_UpdatedAt = zero_Time, S_ResponsesCount = 0\<rparr>,
                     U_UserIdentifier = sr_user_identifier sr,
                     U_ResponseData = sr_response_data sr,
                     U_CreatedAt = sr_created_at sr, U_UpdatedAt = sr_updated_at sr,
                     U_Editable = clock k - sr_created_at sr < 24 * Hour\<rparr>)
                 (enumerate 0
                    (order_by_desc (\<lambda>(sr, s). sr_updated_at sr)
                       (filter (\<lambda>(sr, s). sr_user_identifier sr = userIdentifier)
                               (join_surveys (surveys db) (survey_responses db)))))),
          Errors = []\<rparr>)"
proof (intro conjI impI)
  assume h: "Atoi surveyID = Inr sID \<and> Atoi responseID = Inr rID
    \<and> find (\<lambda>r. sr_id r = rID \<and> sr_survey_id r = sID) (survey_responses db) = Some row"
  then show "getSurveyResponse db now surveyID responseID =
        (StatusOK,
         \<lparr>Status = ''success'', Message = [],
          Data = OneResponse
            ((scan_response row)\<lparr>R_Editable := now - sr_created_at row < 24 * Hour\<rparr>),
          Errors = []\<rparr>)"
    by (simp add: getSurveyResponse_def Let_def Since_less_24h scan_response_def)
  from h show "(fst (fst (updateSurveyResponse db clock surveyID responseID b))
            = StatusUnprocessableEntity)
         = (\<not> (clock 0 - sr_created_at row < 24 * Hour))"
    by (auto simp: updateSurveyResponse_def Let_def Since_ge_24h scan_response_def
          ShouldBindJSON_UpdateResponseRequest_def
        split: body.splits sum.splits option.splits)
  assume "clock 0 - sr_created_at row < 24 * Hour"
  with h update_with_data_reply [of surveyID sID responseID rID db row clock d]
  show "\<exists>row'. fst (updateSurveyResponse db clock surveyID responseID
                          (Decoded \<lparr>NewResponseData = Some d\<rparr>)) =
              (StatusOK,
               \<lparr>Status = ''success'', Message = ''Survey response updated successfully'',
                Data = OneResponse
                  ((scan_response row')
                     \<lparr>R_Editable := clock 2 - sr_created_at row' < 24 * Hour\<rparr>),
                Errors = []\<rparr>)"
    by auto
next
  assume "Atoi surveyID = Inr sID \<and> sID \<in> sv_id ` set (surveys db)"
  then have "Atoi surveyID = Inr sID" and "survey_exists db sID"
    by (auto simp: survey_exists_def list_ex_iff)
  then show "getSurveyResponses db clock surveyID =
        (StatusOK,
         \<lparr>Status = ''success'', Message = [],
          Data = Responses
            (map (\<lambda>(k, r).
                    (scan_response r)\<lparr>R_Editable := clock k - sr_created_at r < 24 * Hour\<rparr>)
                 (enumerate 0
                    (order_by_desc sr_updated_at
                       (filter (\<lambda>r. sr_survey_id r = sID) (survey_responses db))))),
          Errors = []\<rparr>)"
    by (simp add: getSurveyResponses_def Let_def Since_less_24h)
next
  show "getUserResponses db clock userIdentifier =
        (StatusOK,
         \<lparr>Status = ''success'', Message = [],
          Data = UserResponses
            (map (\<lambda>(k, sr, s).
                    \<lparr>U_ID = sr_id sr,
                     U_Survey = \<lparr>S_ID = sv_id s, S_Title = sv_title s,
                                 S_Description = sv_description s, S_CreatedAt = zero_Time,
                                 S_UpdatedAt = zero_Time, S_ResponsesCount = 0\<rparr>,
                     U_UserIdentifier = sr_user_identifier sr,
                     U_ResponseData = sr_response_data sr,
                     U_CreatedAt = sr_created_at sr, U_UpdatedAt = sr_updated_at sr,
                     U_Editable = clock k - sr_created_at sr < 24 * Hour\<rparr>)
                 (enumerate 0
                    (order_by_desc (\<lambda>(sr, s). sr_updated_at sr)
                       (filter (\<lambda>(sr, s). sr_user_identifier sr = userIdentifier)
                               (join_surveys (surveys db) (survey_responses db)))))),
          Errors = []\<rparr>)"
    by (simp add: getUserResponses_def Let_def Since_less_24h)
qed

theorem editable_is_strict_24h_window_witness:
  "Atoi ''1'' = Inr 1
   \<and> find (\<lambda>r. sr_id r = 1 \<and> sr_survey_id r = 1) (survey_responses sample_database)
       = Some response_1
   \<and> 1 \<in> sv_id ` set (surveys sample_database)
   \<and> getSurveyResponse sample_database (24 * Hour - 1000000000) ''1'' ''1'' =
       (StatusOK,
        \<lparr>Status = ''success'', Message = [],
         Data = OneResponse ((scan_response response_1)\<lparr>R_Editable := True\<rparr>), Errors = []\<rparr>)
   \<and> getSurveyResponse sample_database (24 * Hour) ''1'' ''1'' =
       (StatusOK,
        \<lparr>Status = ''success'', Message = [],
         Data = OneResponse ((scan_response response_1)\<lparr>R_Editable := False\<rparr>), Errors = []\<rparr>)
   \<and> fst (fst (updateSurveyResponse sample_database (\<lambda>k. 24 * Hour) ''1'' ''1''
                 (Decoded \<lparr>NewResponseData = Some ''[4]''\<rparr>))) = StatusUnprocessableEntity
   \<and> fst (fst (updateSurveyResponse sample_database (\<lambda>k. 24 * Hour - 1000000000) ''1'' ''1''
                 (Decoded \<lparr>NewResponseData = Some ''[4]''\<rparr>))) \<noteq> StatusUnprocessableEntity
   \<and> getSurveyResponses sample_database (\<lambda>k. 24 * Hour) ''1'' =
       (StatusOK,
        \<lparr>Status = ''success'', Message = [],
         Data = Responses [(scan_response response_2)\<lparr>R_Editable := True\<rparr>,
                           (scan_response response_1)\<lparr>R_Editable := False\<rparr>],
         Errors = []\<rparr>)
   \<and> getUserResponses sample_database (\<lambda>k. 24 * Hour) ''testuser'' =
       (StatusOK,
        \<lparr>Status = ''success'', Message = [],
         Data = UserResponses
           [\<lparr>U_ID = 1,
             U_Survey = \<lparr>S_ID = 1, S_Title = ''Test Survey'',
                         S_Description = ''Test Description'', S_CreatedAt = zero_Time,
                         S_UpdatedAt = zero_Time, S_ResponsesCount = 0\<rparr>,
             U_UserIdentifier = ''testuser'', U_ResponseData = ''[5]'',
             U_CreatedAt = 0, U_UpdatedAt = 0, U_Editable = False\<rparr>],
         Errors = []\<rparr>)"
proof -
  have known: "1 \<in> sv_id ` set (surveys sample_database)"
    by (simp add: sample_database_def)
  have rows: "survey_responses sample_database = [response_1, response_2]"
    and tables: "surveys sample_database =
        [\<lparr>sv_id = 1, sv_title = ''Test Survey'', sv_description = ''Test Description'',
          sv_created_at = 0, sv_updated_at = 0\<rparr>,
         \<lparr>sv_id = 2, sv_title = ''Second Survey'', sv_description = ''No answers yet'',
          sv_created_at = Hour, sv_updated_at = Hour\<rparr>]"
    by (simp_all add: sample_database_def)
  show ?thesis
    using editable_is_strict_24h_window
            [where surveyID = "''1''" and sID = 1 and responseID = "''1''" and rID = 1
               and db = sample_database and row = response_1 and now = "24 * Hour"
               and clock = "\<lambda>k. 24 * Hour" and userIdentifier = "''testuser''"
               and b = "Decoded \<lparr>NewResponseData = Some ''[4]''\<rparr>"]
          editable_is_strict_24h_window
            [where surveyID = "''1''" and sID = 1 and responseID = "''1''" and rID = 1
               and db = sample_database and row = response_1
               and now = "24 * Hour - 1000000000"
               and clock = "\<lambda>k. 24 * Hour - 1000000000"
               and b = "Decoded \<lparr>NewResponseData = Some ''[4]''\<rparr>"]
          Atoi_1 find_response_1 known
    by (simp add: rows tables order_by_desc_def join_surveys_def enumerate_eq_zip
          response_1_def response_2_def scan_response_def Hour_def)
qed

text \<open>
  Claim C3. When the response is 24 hours old or older, \<open>updateSurveyResponse\<close> answers
  with the edit-window rejection and hands the store back as it was: no row, hence neither
  \<open>response_data\<close> nor \<open>updated_at\<close>, is written.
\<close>

theorem update_expired_rejected_store_unchanged:
  assumes "Atoi surveyID = Inr sID" and "Atoi responseID = Inr rID"
    and "find (\<lambda>r. sr_id r = rID \<and> sr_survey_id r = sID) (survey_responses db) = Some row"
    and "clock 0 - sr_created_at row \<ge> 24 * Hour"
  shows "updateSurveyResponse db clock surveyID responseID b =
           ((StatusUnprocessableEntity,
             \<lparr>Status = ''error'', Message = ''Response cannot be edited after 24 hours'',
              Data = NoData, Errors = []\<rparr>), db)"
  using assms
  by (simp add: updateSurveyResponse_def Let_def Since_ge_24h scan_response_def)

theorem update_expired_rejected_store_unchanged_witness:
  "find (\<lambda>r. sr_id r = 1 \<and> sr_survey_id r = 1) (survey_responses sample_database)
       = Some response_1
   \<and> 25 * Hour - sr_created_at response_1 \<ge> 24 * Hour
   \<and> updateSurveyResponse sample_database (\<lambda>k. 25 * Hour) ''1'' ''1''
         (Decoded \<lparr>NewResponseData = Some ''[4]''\<rparr>) =
       ((StatusUnprocessableEntity,
         \<lparr>Status = ''error'', Message = ''Response cannot be edited after 24 hours'',
          Data = NoData, Errors = []\<rparr>), sample_database)"
proof -
  have old: "(\<lambda>k. 25 * Hour) (0::nat) - sr_created_at response_1 \<ge> 24 * Hour"
    by (simp add: response_1_def Hour_def)
  show ?thesis
    using update_expired_rejected_store_unchanged [OF Atoi_1 Atoi_1 find_response_1 old]
      find_response_1 old
    by simp
qed

text \<open>
  Claim C9. The lookup and the window test come before the body is read: for a response
  that is not there the answer is 404 and for an expired one it is the edit-window
  rejection, for every body, the malformed one included. Only for a response still inside
  its window does a malformed body give 400.
\<close>

theorem update_checks_precede_body:
  assumes "Atoi surveyID = Inr sID" and "Atoi responseID = Inr rID"
  shows "(find (\<lambda>r. sr_id r = rID \<and> sr_survey_id r = sID) (survey_responses db) = None \<longrightarrow>
            (\<forall>b. fst (updateSurveyResponse db clock surveyID responseID b) =
                   (StatusNotFound,
                    \<lparr>Status = ''error'', Message = ''Survey response not found'',
                     Data = NoData, Errors = []\<rparr>)))
       \<and> (\<forall>row. find (\<lambda>r. sr_id r = rID \<and> sr_survey_id r = sID) (survey_responses db)
                   = Some row \<longrightarrow>
            (if clock 0 - sr_created_at row \<ge> 24 * Hour
             then \<forall>b. fst (updateSurveyResponse db clock surveyID responseID b) =
                   (StatusUnprocessableEntity,
                    \<lparr>Status = ''error'',
                     Message = ''Response cannot be edited after 24 hours'',
                     Data = NoData, Errors = []\<rparr>)
             else fst (updateSurveyResponse db clock surveyID responseID Malformed) =
                   (StatusBadRequest,
                    \<lparr>Status = ''error'', Message = ''Invalid request data'',
                     Data = NoData, Errors = [Error ErrJSON]\<rparr>)))"
  using assms
  by (simp add: updateSurveyResponse_def Let_def Since_ge_24h scan_response_def
        ShouldBindJSON_UpdateResponseRequest_def)

theorem update_checks_precede_body_witness:
  "fst (updateSurveyResponse sample_database (\<lambda>k. 25 * Hour) ''1'' ''1'' Malformed) =
     (StatusUnprocessableEntity,
      \<lparr>Status = ''error'', Message = ''Response cannot be edited after 24 hours'',
       Data = NoData, Errors = []\<rparr>)
   \<and> fst (updateSurveyResponse sample_database (\<lambda>k. 2 * Hour) ''1'' ''1'' Malformed) =
     (StatusBadRequest,
      \<lparr>Status = ''error'', Message = ''Invalid request data'',
       Data = NoData, Errors = [Error ErrJSON]\<rparr>)
   \<and> fst (updateSurveyResponse sample_database (\<lambda>k. 25 * Hour) ''2'' ''1'' Malformed) =
     (StatusNotFound,
      \<lparr>Status = ''error'', Message = ''Survey response not found'',
       Data = NoData, Errors = []\<rparr>)"
  using update_checks_precede_body [OF Atoi_1 Atoi_1, of sample_database "\<lambda>k. 25 * Hour"]
        update_checks_precede_body [OF Atoi_1 Atoi_1, of sample_database "\<lambda>k. 2 * Hour"]
        update_checks_precede_body [OF Atoi_2 Atoi_1, of sample_database "\<lambda>k. 25 * Hour"]
        find_response_1
  by (simp add: sample_database_def response_1_def response_2_def Hour_def)

text \<open>
  Claim C2. For a response inside its window, a body that brings no \<open>response_data\<close>
  leaves the store as it was, \<open>updated_at\<close> included. The handler does try the write:
  the absent field reaches the \<open>UPDATE\<close> as NULL, the \<open>NOT NULL\<close> column refuses it,
  and the reply is the 500 of a failed statement. A body that does not decode is answered
  with 400 before any statement runs.
\<close>

theorem update_without_data_writes_nothing:
  assumes "Atoi surveyID = Inr sID" and "Atoi responseID = Inr rID"
    and "find (\<lambda>r. sr_id r = rID \<and> sr_survey_id r = sID) (survey_responses db) = Some row"
    and "clock 0 - sr_created_at row < 24 * Hour"
  shows "updateSurveyResponse db clock surveyID responseID
           (Decoded \<lparr>NewResponseData = None\<rparr>) =
           ((StatusInternalServerError,
             \<lparr>Status = ''error'', Message = ''Failed to update survey response'',
              Data = NoData,
              Errors = [Error (ErrConstraint
                ''NOT NULL constraint failed: survey_responses.response_data'')]\<rparr>), db)
         \<and> updateSurveyResponse db clock surveyID responseID Malformed =
           ((StatusBadRequest,
             \<lparr>Status = ''error'', Message = ''Invalid request data'',
              Data = NoData, Errors = [Error ErrJSON]\<rparr>), db)"
  using assms find_Some_list_ex [OF assms(3)]
  by (simp add: updateSurveyResponse_def Let_def Since_ge_24h scan_response_def
        ShouldBindJSON_UpdateResponseRequest_def update_response_def)

theorem update_without_data_writes_nothing_witness:
  "find (\<lambda>r. sr_id r = 1 \<and> sr_survey_id r = 1) (survey_responses sample_database)
       = Some response_1
   \<and> 2 * Hour - sr_created_at response_1 < 24 * Hour
   \<and> snd (updateSurveyResponse sample_database (\<lambda>k. 2 * Hour) ''1'' ''1''
            (Decoded \<lparr>NewResponseData = None\<rparr>)) = sample_database
   \<and> snd (updateSurveyResponse sample_database (\<lambda>k. 2 * Hour) ''1'' ''1'' Malformed)
       = sample_database"
proof -
  have fresh: "(\<lambda>k. 2 * Hour) (0::nat) - sr_created_at response_1 < 24 * Hour"
    by (simp add: response_1_def Hour_def)
  show ?thesis
    using update_without_data_writes_nothing [OF Atoi_1 Atoi_1 find_response_1 fresh]
      find_response_1 fresh
    by simp
qed

text \<open>
  For comparison: with a value in the body the statement runs, and the store afterwards
  has the new data and the store's timestamp in the selected row.
\<close>

lemma update_with_data_overwrites:
  assumes "Atoi surveyID = Inr sID" and "Atoi responseID = Inr rID"
    and "find (\<lambda>r. sr_id r = rID \<and> sr_survey_id r = sID) (survey_responses db) = Some row"
    and "clock 0 - sr_created_at row < 24 * Hour"
  shows "snd (updateSurveyResponse db clock surveyID responseID
                (Decoded \<lparr>NewResponseData = Some d\<rparr>)) =
           db\<lparr>survey_responses :=
                map (\<lambda>r. if sr_id r = rID \<and> sr_survey_id r = sID
                          then r\<lparr>sr_response_data := d,
                                 sr_updated_at := CURRENT_TIMESTAMP (clock 1)\<rparr>
                          else r)
                    (survey_responses db)\<rparr>"
  using assms update_with_data_reply [of surveyID sID responseID rID db row clock d]
  by auto

section \<open>Lookups\<close>

text \<open>
  Claim C4. \<open>createSurveyResponse\<close> for a survey id that no survey row has answers 404
  and writes nothing, for every body: the existence test comes first, so a body that would
  fail validation (or does not even decode) gets the 404 too.
\<close>

theorem create_response_unknown_survey_not_found:
  assumes "Atoi surveyID = Inr sID" and "sID \<notin> sv_id ` set (surveys db)"
  shows "createSurveyResponse db now surveyID b =
           ((StatusNotFound,
             \<lparr>Status = ''error'', Message = ''Survey not found'', Data = NoData,
              Errors = []\<rparr>), db)"
proof -
  have "\<not> survey_exists db sID"
    using assms(2) by (auto simp: survey_exists_def list_ex_iff)
  then show ?thesis
    using assms(1) by (simp add: createSurveyResponse_def)
qed

theorem create_response_unknown_survey_not_found_witness:
  "Atoi ''7'' = Inr 7 \<and> 7 \<notin> sv_id ` set (surveys sample_database)
   \<and> createSurveyResponse sample_database Hour ''7''
        (Decoded \<lparr>UserIdentifier = ''ab'', ResponseData = Some ''[5]''\<rparr>) =
       ((StatusNotFound,
         \<lparr>Status = ''error'', Message = ''Survey not found'', Data = NoData,
          Errors = []\<rparr>), sample_database)
   \<and> createSurveyResponse sample_database Hour ''7'' Malformed =
       ((StatusNotFound,
         \<lparr>Status = ''error'', Message = ''Survey not found'', Data = NoData,
          Errors = []\<rparr>), sample_database)"
proof -
  have absent: "7 \<notin> sv_id ` set (surveys sample_database)"
    by (simp add: sample_database_def)
  show ?thesis
    using create_response_unknown_survey_not_found [OF Atoi_7 absent] Atoi_7 absent
    by simp
qed

text \<open>
  Claim C7. \<open>getSurveyResponse\<close> looks the response up by both ids: when no row has the
  response id together with the survey id, the answer is 404, also when a row with that
  response id exists under another survey.
\<close>

theorem get_response_is_survey_scoped:
  assumes "Atoi surveyID = Inr sID" and "Atoi responseID = Inr rID"
    and "\<not> (\<exists>r \<in> set (survey_responses db). sr_id r = rID \<and> sr_survey_id r = sID)"
  shows "getSurveyResponse db now surveyID responseID =
           (StatusNotFound,
            \<lparr>Status = ''error'', Message = ''Survey response not found'', Data = NoData,
             Errors = []\<rparr>)"
proof -
  have "find (\<lambda>r. sr_id r = rID \<and> sr_survey_id r = sID) (survey_responses db) = None"
    using assms(3) by (simp add: find_None_iff_no_row)
  then show ?thesis
    using assms(1,2) by (simp add: getSurveyResponse_def)
qed

theorem get_response_is_survey_scoped_witness:
  "response_1 \<in> set (survey_responses sample_database) \<and> sr_id response_1 = 1
   \<and> sr_survey_id response_1 = 1
   \<and> \<not> (\<exists>r \<in> set (survey_responses sample_database). sr_id r = 1 \<and> sr_survey_id r = 2)
   \<and> getSurveyResponse sample_database Hour ''2'' ''1'' =
       (StatusNotFound,
        \<lparr>Status = ''error'', Message = ''Survey response not found'', Data = NoData,
         Errors = []\<rparr>)"
proof -
  have other: "\<not> (\<exists>r \<in> set (survey_responses sample_database).
                    sr_id r = 1 \<and> sr_survey_id r = 2)"
    by (simp add: sample_database_def response_1_def response_2_def)
  show ?thesis
    using get_response_is_survey_scoped [OF Atoi_2 Atoi_1 other] other
    by (simp add: sample_database_def response_1_def)
qed


section \<open>Creating a survey\<close>

lemma max_rowid_None: "max_rowid ids = None \<longleftrightarrow> ids = []"
  by (induction ids) (auto split: option.splits)

lemma max_rowid_upper: "max_rowid ids = Some m \<Longrightarrow> i \<in> set ids \<Longrightarrow> i \<le> m"
  by (induction ids arbitrary: m) (auto simp: max_rowid_None split: option.splits)

lemma max_rowid_member: "max_rowid ids = Some m \<Longrightarrow> m \<in> set ids"
  by (induction ids arbitrary: m) (auto simp: max_def split: option.splits if_splits)

lemma next_rowid_fresh:
  assumes "next_rowid seq ids = Inr n"
  shows "n \<notin> set ids"
proof
  assume member: "n \<in> set ids"
  then obtain m where m: "max_rowid ids = Some m"
    by (cases "max_rowid ids") (auto simp: max_rowid_None)
  with member have "n \<le> m" by (simp add: max_rowid_upper)
  moreover from assms m have "m + 1 \<le> n"
    by (auto simp: next_rowid_def split: if_splits)
  ultimately show False by simp
qed

text \<open>An id can be allotted exactly while the largest rowid has not been in use.\<close>

lemma next_rowid_full_iff:
  "next_rowid seq ids = Inl err \<longleftrightarrow>
     err = ErrFull \<and> (seq \<ge> MAX_ROWID \<or> (\<exists>i \<in> set ids. i \<ge> MAX_ROWID))"
proof (cases "max_rowid ids")
  case None
  then show ?thesis
    by (auto simp: next_rowid_def max_rowid_None)
next
  case (Some m)
  have "m \<ge> MAX_ROWID \<longleftrightarrow> (\<exists>i \<in> set ids. i \<ge> MAX_ROWID)"
    using max_rowid_upper [OF Some] max_rowid_member [OF Some] by force
  with Some show ?thesis
    by (auto simp: next_rowid_def)
qed

lemma next_rowid_allots:
  assumes "seq < MAX_ROWID" and "\<forall>i \<in> set ids. i < MAX_ROWID"
  shows "\<exists>n. next_rowid seq ids = Inr n"
proof (cases "next_rowid seq ids")
  case (Inl err)
  with assms show ?thesis
    by (auto simp: next_rowid_full_iff)
next
  case (Inr n)
  then show ?thesis by simp
qed

lemma find_appended_row:
  assumes "\<forall>x \<in> set xs. \<not> P x" and "P y"
  shows "find P (xs @ [y]) = Some y"
  using assms by (induction xs) auto

lemma find_inserted_survey:
  assumes "next_rowid (surveys_seq db) (map sv_id (surveys db)) = Inr n"
  shows "find (\<lambda>s. sv_id s = n)
           (surveys db @
             [\<lparr>sv_id = n, sv_title = t, sv_description = d, sv_created_at = ts,
               sv_updated_at = ts\<rparr>])
         = Some \<lparr>sv_id = n, sv_title = t, sv_description = d, sv_created_at = ts,
                 sv_updated_at = ts\<rparr>"
proof (rule find_appended_row)
  show "\<forall>x \<in> set (surveys db). \<not> sv_id x = n"
    using next_rowid_fresh [OF assms] by (metis imageI list.set_map)
qed simp

lemma find_inserted_response:
  assumes "next_rowid (survey_responses_seq db) (map sr_id (survey_responses db)) = Inr n"
  shows "find (\<lambda>r. sr_id r = n)
           (survey_responses db @
             [\<lparr>sr_id = n, sr_survey_id = sID, sr_user_identifier = u, sr_response_data = d,
               sr_created_at = ts, sr_updated_at = ts\<rparr>])
         = Some \<lparr>sr_id = n, sr_survey_id = sID, sr_user_identifier = u,
                 sr_response_data = d, sr_created_at = ts, sr_updated_at = ts\<rparr>"
proof (rule find_appended_row)
  show "\<forall>x \<in> set (survey_responses db). \<not> sr_id x = n"
    using next_rowid_fresh [OF assms] by (metis imageI list.set_map)
qed simp

text \<open>What \<open>createSurvey\<close> does with a request that passes the required-field test.\<close>

lemma createSurvey_bound:
  assumes "t \<noteq> []" and "d \<noteq> []"
  shows "createSurvey db now (Decoded \<lparr>Title = t, Description = d\<rparr>) =
     (let errors = (if length t < 3 then [''Title must be at least 3 characters long''] else [])
                 @ (if length t > 255 then [''Title must be less than 255 characters''] else [])
                 @ (if length d > 1000
                    then [''Description must be less than 1000 characters''] else [])
      in if errors \<noteq> []
         then ((StatusUnprocessableEntity,
                \<lparr>Status = ''error'', Message = ''Failed to create survey'', Data = NoData,
                 Errors = map Msg errors\<rparr>), db)
         else (case next_rowid (surveys_seq db) (map sv_id (surveys db)) of
                 Inl err \<Rightarrow>
                   ((StatusInternalServerError,
                     \<lparr>Status = ''error'', Message = ''Failed to create survey'',
                      Data = NoData, Errors = [Error err]\<rparr>), db)
               | Inr n \<Rightarrow>
                   ((StatusCreated,
                     \<lparr>Status = ''success'', Message = ''Survey created successfully'',
                      Data = OneSurvey
                        \<lparr>S_ID = n, S_Title = t, S_Description = d,
                         S_CreatedAt = CURRENT_TIMESTAMP now,
                         S_UpdatedAt = CURRENT_TIMESTAMP now, S_ResponsesCount = 0\<rparr>,
                      Errors = []\<rparr>),
                    db\<lparr>surveys := surveys db @
                          [\<lparr>sv_id = n, sv_title = t, sv_description = d,
                            sv_created_at = CURRENT_TIMESTAMP now,
                            sv_updated_at = CURRENT_TIMESTAMP now\<rparr>],
                        surveys_seq := n\<rparr>)))"
  using assms
  by (simp add: createSurvey_def ShouldBindJSON_CreateSurveyRequest_def Let_def
        insert_survey_def find_inserted_survey split: sum.splits)

lemma createSurvey_unbound:
  assumes "t = [] \<or> d = []"
  shows "createSurvey db now (Decoded \<lparr>Title = t, Description = d\<rparr>) =
        ((StatusBadRequest,
          \<lparr>Status = ''error'', Message = ''Invalid request data'', Data = NoData,
           Errors = [Error (ErrRequired ((if t = [] then [''Title''] else [])
                                         @ (if d = [] then [''Description''] else [])))]\<rparr>),
         db)"
  using assms
  by (auto simp: createSurvey_def ShouldBindJSON_CreateSurveyRequest_def Let_def)

text \<open>
  Claim C5, as the code has it. Lengths are counted in bytes, as \<open>len\<close> does. The
  request struct marks both fields as required, so an empty title or an empty description
  is turned away with 400 before validation, and nothing is written. With a title of 3 to
  255 bytes and a description of 1 to 1000 bytes the survey is inserted and returned with
  \<open>ResponsesCount = 0\<close>, as long as the table can still allot a rowid; once the largest
  rowid has been in use the insert fails, the reply is 500 and nothing is written. A
  request with both fields non-empty that breaks a length bound gets 422 with every
  message that applies, and nothing is written.
\<close>

theorem create_survey_outcomes:
  "(3 \<le> length t \<and> length t \<le> 255 \<and> 1 \<le> length d \<and> length d \<le> 1000
    \<and> surveys_seq db < MAX_ROWID \<and> (\<forall>s \<in> set (surveys db). sv_id s < MAX_ROWID) \<longrightarrow>
      (\<exists>n. next_rowid (surveys_seq db) (map sv_id (surveys db)) = Inr n
          \<and> n \<notin> sv_id ` set (surveys db)
          \<and> createSurvey db now (Decoded \<lparr>Title = t, Description = d\<rparr>) =
              ((StatusCreated,
                \<lparr>Status = ''success'', Message = ''Survey created successfully'',
                 Data = OneSurvey
                   \<lparr>S_ID = n, S_Title = t, S_Description = d,
                    S_CreatedAt = CURRENT_TIMESTAMP now, S_UpdatedAt = CURRENT_TIMESTAMP now,
                    S_ResponsesCount = 0\<rparr>,
                 Errors = []\<rparr>),
               db\<lparr>surveys := surveys db @
                     [\<lparr>sv_id = n, sv_title = t, sv_description = d,
                       sv_created_at = CURRENT_TIMESTAMP now,
                       sv_updated_at = CURRENT_TIMESTAMP now\<rparr>],
                   surveys_seq := n\<rparr>)))
   \<and> (3 \<le> length t \<and> length t \<le> 255 \<and> 1 \<le> length d \<and> length d \<le> 1000
      \<and> (surveys_seq db \<ge> MAX_ROWID \<or> (\<exists>s \<in> set (surveys db). sv_id s \<ge> MAX_ROWID)) \<longrightarrow>
      createSurvey db now (Decoded \<lparr>Title = t, Description = d\<rparr>) =
        ((StatusInternalServerError,
          \<lparr>Status = ''error'', Message = ''Failed to create survey'', Data = NoData,
           Errors = [Error ErrFull]\<rparr>), db))
   \<and> (t \<noteq> [] \<and> d \<noteq> [] \<and> (length t < 3 \<or> 255 < length t \<or> 1000 < length d) \<longrightarrow>
      createSurvey db now (Decoded \<lparr>Title = t, Description = d\<rparr>) =
        ((StatusUnprocessableEntity,
          \<lparr>Status = ''error'', Message = ''Failed to create survey'', Data = NoData,
           Errors = map Msg
             ((if length t < 3 then [''Title must be at least 3 characters long''] else [])
              @ (if 255 < length t then [''Title must be less than 255 characters''] else [])
              @ (if 1000 < length d
                 then [''Description must be less than 1000 characters''] else []))\<rparr>), db))
   \<and> (t = [] \<or> d = [] \<longrightarrow>
      createSurvey db now (Decoded \<lparr>Title = t, Description = d\<rparr>) =
        ((StatusBadRequest,
          \<lparr>Status = ''error'', Message = ''Invalid request data'', Data = NoData,
           Errors = [Error (ErrRequired ((if t = [] then [''Title''] else [])
                                         @ (if d = [] then [''Description''] else [])))]\<rparr>),
         db))"
proof (intro conjI impI)
  assume ok: "3 \<le> length t \<and> length t \<le> 255 \<and> 1 \<le> length d \<and> length d \<le> 1000
    \<and> surveys_seq db < MAX_ROWID \<and> (\<forall>s \<in> set (surveys db). sv_id s < MAX_ROWID)"
  then have nonempty: "t \<noteq> []" "d \<noteq> []" by auto
  from ok have "\<exists>n. next_rowid (surveys_seq db) (map sv_id (surveys db)) = Inr n"
    by (intro next_rowid_allots) auto
  then obtain n where n: "next_rowid (surveys_seq db) (map sv_id (surveys db)) = Inr n"
    by blast
  then have fresh: "n \<notin> sv_id ` set (surveys db)"
    using next_rowid_fresh [OF n] by simp
  have "createSurvey db now (Decoded \<lparr>Title = t, Description = d\<rparr>) =
              ((StatusCreated,
                \<lparr>Status = ''success'', Message = ''Survey created successfully'',
                 Data = OneSurvey
                   \<lparr>S_ID = n, S_Title = t, S_Description = d,
                    S_CreatedAt = CURRENT_TIMESTAMP now, S_UpdatedAt = CURRENT_TIMESTAMP now,
                    S_ResponsesCount = 0\<rparr>,
                 Errors = []\<rparr>),
               db\<lparr>surveys := surveys db @
                     [\<lparr>sv_id = n, sv_title = t, sv_description = d,
                       sv_created_at = CURRENT_TIMESTAMP now,
                       sv_updated_at = CURRENT_TIMESTAMP now\<rparr>],
                   surveys_seq := n\<rparr>)"
    using createSurvey_bound [OF nonempty, of db now] ok n by simp
  with n fresh show "\<exists>n. next_rowid (surveys_seq db) (map sv_id (surveys db)) = Inr n
          \<and> n \<notin> sv_id ` set (surveys db)
          \<and> createSurvey db now (Decoded \<lparr>Title = t, Description = d\<rparr>) =
              ((StatusCreated,
                \<lparr>Status = ''success'', Message = ''Survey created successfully'',
                 Data = OneSurvey
                   \<lparr>S_ID = n, S_Title = t, S_Description = d,
                    S_CreatedAt = CURRENT_TIMESTAMP now, S_UpdatedAt = CURRENT_TIMESTAMP now,
                    S_ResponsesCount = 0\<rparr>,
                 Errors = []\<rparr>),
               db\<lparr>surveys := surveys db @
                     [\<lparr>sv_id = n, sv_title = t, sv_description = d,
                       sv_created_at = CURRENT_TIMESTAMP now,
                       sv_updated_at = CURRENT_TIMESTAMP now\<rparr>],
                   surveys_seq := n\<rparr>)"
    by blast
next
  assume full: "3 \<le> length t \<and> length t \<le> 255 \<and> 1 \<le> length d \<and> length d \<le> 1000
      \<and> (surveys_seq db \<ge> MAX_ROWID \<or> (\<exists>s \<in> set (surveys db). sv_id s \<ge> MAX_ROWID))"
  then have nonempty: "t \<noteq> []" "d \<noteq> []" by auto
  from full have "next_rowid (surveys_seq db) (map sv_id (surveys db)) = Inl ErrFull"
    by (auto simp: next_rowid_full_iff)
  then show "createSurvey db now (Decoded \<lparr>Title = t, Description = d\<rparr>) =
        ((StatusInternalServerError,
          \<lparr>Status = ''error'', Message = ''Failed to create survey'', Data = NoData,
           Errors = [Error ErrFull]\<rparr>), db)"
    using createSurvey_bound [OF nonempty, of db now] full by simp
next
  assume bad: "t \<noteq> [] \<and> d \<noteq> [] \<and> (length t < 3 \<or> 255 < length t \<or> 1000 < length d)"
  then have "t \<noteq> []" and "d \<noteq> []" by auto
  from createSurvey_bound [OF this, of db now] bad
  show "createSurvey db now (Decoded \<lparr>Title = t, Description = d\<rparr>) =
        ((StatusUnprocessableEntity,
          \<lparr>Status = ''error'', Message = ''Failed to create survey'', Data = NoData,
           Errors = map Msg
             ((if length t < 3 then [''Title must be at least 3 characters long''] else [])
              @ (if 255 < length t then [''Title must be less than 255 characters''] else [])
              @ (if 1000 < length d
                 then [''Description must be less than 1000 characters''] else []))\<rparr>), db)"
    by (auto simp: Let_def)
next
  assume "t = [] \<or> d = []"
  then show "createSurvey db now (Decoded \<lparr>Title = t, Description = d\<rparr>) =
        ((StatusBadRequest,
          \<lparr>Status = ''error'', Message = ''Invalid request data'', Data = NoData,
           Errors = [Error (ErrRequired ((if t = [] then [''Title''] else [])
                                         @ (if d = [] then [''Description''] else [])))]\<rparr>),
         db)"
    by (rule createSurvey_unbound)
qed

theorem create_survey_outcomes_witness:
  "createSurvey empty_database 0
      (Decoded \<lparr>Title = ''Test Survey'', Description = ''Test Description''\<rparr>) =
     ((StatusCreated,
       \<lparr>Status = ''success'', Message = ''Survey created successfully'',
        Data = OneSurvey
          \<lparr>S_ID = 1, S_Title = ''Test Survey'', S_Description = ''Test Description'',
           S_CreatedAt = 0, S_UpdatedAt = 0, S_ResponsesCount = 0\<rparr>,
        Errors = []\<rparr>),
      \<lparr>surveys = [\<lparr>sv_id = 1, sv_title = ''Test Survey'',
                   sv_description = ''Test Description'',
                   sv_created_at = 0, sv_updated_at = 0\<rparr>],
       survey_responses = [], surveys_seq = 1, survey_responses_seq = 0\<rparr>)
   \<and> createSurvey (empty_database\<lparr>surveys_seq := MAX_ROWID\<rparr>) 0
      (Decoded \<lparr>Title = ''Test Survey'', Description = ''Test Description''\<rparr>) =
     ((StatusInternalServerError,
       \<lparr>Status = ''error'', Message = ''Failed to create survey'', Data = NoData,
        Errors = [Error ErrFull]\<rparr>), empty_database\<lparr>surveys_seq := MAX_ROWID\<rparr>)
   \<and> createSurvey empty_database 0
      (Decoded \<lparr>Title = ''A'', Description = ''New Description''\<rparr>) =
     ((StatusUnprocessableEntity,
       \<lparr>Status = ''error'', Message = ''Failed to create survey'', Data = NoData,
        Errors = [Msg ''Title must be at least 3 characters long'']\<rparr>), empty_database)
   \<and> createSurvey empty_database 0 (Decoded \<lparr>Title = [], Description = ''x''\<rparr>) =
     ((StatusBadRequest,
       \<lparr>Status = ''error'', Message = ''Invalid request data'', Data = NoData,
        Errors = [Error (ErrRequired [''Title''])]\<rparr>), empty_database)"
  using create_survey_outcomes [of "''Test Survey''" "''Test Description''" empty_database 0]
        create_survey_outcomes [of "''Test Survey''" "''Test Description''"
                                   "empty_database\<lparr>surveys_seq := MAX_ROWID\<rparr>" 0]
        create_survey_outcomes [of "''A''" "''New Description''" empty_database 0]
        create_survey_outcomes [of "[]" "''x''" empty_database 0]
  by (simp add: next_rowid_def empty_database_def CURRENT_TIMESTAMP_def MAX_ROWID_def)

text \<open>
  Where claim C5 as worded fails: a title of three bytes with a description of length 0
  is answered with 400, not created; an empty title, which breaks the lower bound of 3,
  is answered with 400 rather than with the 422 of validation; and a request within all
  bounds is answered with 500 when the table has no rowid left.
\<close>

theorem create_survey_empty_description_rejected:
  "3 \<le> length ''abc'' \<and> length ''abc'' \<le> 255 \<and> length ('''' :: string) \<le> 1000
   \<and> createSurvey empty_database 0 (Decoded \<lparr>Title = ''abc'', Description = ''''\<rparr>) =
     ((StatusBadRequest,
       \<lparr>Status = ''error'', Message = ''Invalid request data'', Data = NoData,
        Errors = [Error (ErrRequired [''Description''])]\<rparr>), empty_database)
   \<and> length ('''' :: string) < 3
   \<and> createSurvey empty_database 0 (Decoded \<lparr>Title = '''', Description = ''abc''\<rparr>) =
     ((StatusBadRequest,
       \<lparr>Status = ''error'', Message = ''Invalid request data'', Data = NoData,
        Errors = [Error (ErrRequired [''Title''])]\<rparr>), empty_database)
   \<and> createSurvey (empty_database\<lparr>surveys_seq := MAX_ROWID\<rparr>) 0
        (Decoded \<lparr>Title = ''abc'', Description = ''abc''\<rparr>) =
     ((StatusInternalServerError,
       \<lparr>Status = ''error'', Message = ''Failed to create survey'', Data = NoData,
        Errors = [Error ErrFull]\<rparr>), empty_database\<lparr>surveys_seq := MAX_ROWID\<rparr>)"
  by (simp add: createSurvey_def ShouldBindJSON_CreateSurveyRequest_def insert_survey_def
        next_rowid_def empty_database_def)

section \<open>Validation\<close>

text \<open>
  What \<open>createSurveyResponse\<close> does with a request for an existing survey that passes
  the required-field test.
\<close>

lemma createSurveyResponse_bound:
  assumes "Atoi surveyID = Inr sID" and "sID \<in> sv_id ` set (surveys db)" and "u \<noteq> []"
  shows "createSurveyResponse db now surveyID
           (Decoded \<lparr>UserIdentifier = u, ResponseData = Some data\<rparr>) =
     (let errors =
            (if length u < 3
             then [''User identifier must be at least 3 characters long''] else [])
          @ (if length u > 100
             then [''User identifier must be less than 100 characters''] else [])
      in if errors \<noteq> []
         then ((StatusUnprocessableEntity,
                \<lparr>Status = ''error'', Message = ''Failed to submit survey response'',
                 Data = NoData, Errors = map Msg errors\<rparr>), db)
         else (case next_rowid (survey_responses_seq db) (map sr_id (survey_responses db)) of
                 Inl err \<Rightarrow>
                   ((StatusInternalServerError,
                     \<lparr>Status = ''error'', Message = ''Failed to submit survey response'',
                      Data = NoData, Errors = [Error err]\<rparr>), db)
               | Inr n \<Rightarrow>
                   ((StatusCreated,
                     \<lparr>Status = ''success'',
                      Message = ''Survey response submitted successfully'',
                      Data = OneResponse
                        \<lparr>R_ID = n, R_SurveyID = sID, R_UserIdentifier = u,
                         R_ResponseData = data, R_CreatedAt = CURRENT_TIMESTAMP now,
                         R_UpdatedAt = CURRENT_TIMESTAMP now, R_Editable = True\<rparr>,
                      Errors = []\<rparr>),
                    db\<lparr>survey_responses := survey_responses db @
                          [\<lparr>sr_id = n, sr_survey_id = sID, sr_user_identifier = u,
                            sr_response_data = data, sr_created_at = CURRENT_TIMESTAMP now,
                            sr_updated_at = CURRENT_TIMESTAMP now\<rparr>],
                        survey_responses_seq := n\<rparr>)))"
proof -
  have "survey_exists db sID"
    using assms(2) by (auto simp: survey_exists_def list_ex_iff)
  then show ?thesis
    using assms(1,3)
    by (simp add: createSurveyResponse_def ShouldBindJSON_CreateResponseRequest_def Let_def
          insert_response_def find_inserted_response scan_response_def split: sum.splits)
qed

lemma createSurveyResponse_unbound:
  assumes "Atoi surveyID = Inr sID" and "sID \<in> sv_id ` set (surveys db)"
    and "u = [] \<or> data = None"
  shows "createSurveyResponse db now surveyID
           (Decoded \<lparr>UserIdentifier = u, ResponseData = data\<rparr>) =
        ((StatusBadRequest,
          \<lparr>Status = ''error'', Message = ''Invalid request data'', Data = NoData,
           Errors = [Error (ErrRequired
                      ((if u = [] then [''UserIdentifier''] else [])
                       @ (if data = None then [''ResponseData''] else [])))]\<rparr>),
         db)"
proof -
  have "survey_exists db sID"
    using assms(2) by (auto simp: survey_exists_def list_ex_iff)
  then show ?thesis
    using assms(1,3)
    by (auto simp: createSurveyResponse_def ShouldBindJSON_CreateResponseRequest_def Let_def)
qed

text \<open>
  Claim C6, as the code has it. Lengths are counted in bytes. The required-field test of
  the binding comes first and does cut validation short: a request with an empty required
  field is answered with 400 and no length message, whatever else is wrong with it. For a
  request that passes it, each length test adds its message whether or not an earlier one
  did: when at least one test fails the reply is the one 422 that lists exactly the
  messages whose test fails, in the order of the tests, and nothing is written; when none
  fails the reply is not a 422 and carries no message. This holds for surveys and for
  responses alike. In particular a title over 255 bytes together with a description over
  1000 bytes gives both messages in the one 422 reply.
\<close>

theorem validation_collects_all_messages:
  "(t \<noteq> [] \<and> d \<noteq> [] \<longrightarrow>
      (if length t < 3 \<or> 255 < length t \<or> 1000 < length d
       then createSurvey db now (Decoded \<lparr>Title = t, Description = d\<rparr>) =
              ((StatusUnprocessableEntity,
                \<lparr>Status = ''error'', Message = ''Failed to create survey'', Data = NoData,
                 Errors = map Msg
                   ((if length t < 3
                     then [''Title must be at least 3 characters long''] else [])
                    @ (if 255 < length t
                       then [''Title must be less than 255 characters''] else [])
                    @ (if 1000 < length d
                       then [''Description must be less than 1000 characters''] else []))\<rparr>),
               db)
       else fst (fst (createSurvey db now (Decoded \<lparr>Title = t, Description = d\<rparr>)))
              \<noteq> StatusUnprocessableEntity
            \<and> (\<forall>m. Msg m \<notin> set (Errors (snd (fst
                  (createSurvey db now (Decoded \<lparr>Title = t, Description = d\<rparr>))))))))
   \<and> (Atoi surveyID = Inr sID \<and> sID \<in> sv_id ` set (surveys db) \<and> u \<noteq> [] \<longrightarrow>
      (if length u < 3 \<or> 100 < length u
       then createSurveyResponse db now surveyID
              (Decoded \<lparr>UserIdentifier = u, ResponseData = Some data\<rparr>) =
              ((StatusUnprocessableEntity,
                \<lparr>Status = ''error'', Message = ''Failed to submit survey response'',
                 Data = NoData,
                 Errors = map Msg
                   ((if length u < 3
                     then [''User identifier must be at least 3 characters long''] else [])
                    @ (if 100 < length u
                       then [''User identifier must be less than 100 characters'']
                       else []))\<rparr>),
               db)
       else fst (fst (createSurveyResponse db now surveyID
                        (Decoded \<lparr>UserIdentifier = u, ResponseData = Some data\<rparr>)))
              \<noteq> StatusUnprocessableEntity
            \<and> (\<forall>m. Msg m \<notin> set (Errors (snd (fst
                  (createSurveyResponse db now surveyID
                     (Decoded \<lparr>UserIdentifier = u, ResponseData = Some data\<rparr>))))))))
   \<and> (255 < length t \<and> 1000 < length d \<longrightarrow>
      createSurvey db now (Decoded \<lparr>Title = t, Description = d\<rparr>) =
        ((StatusUnprocessableEntity,
          \<lparr>Status = ''error'', Message = ''Failed to create survey'', Data = NoData,
           Errors = [Msg ''Title must be less than 255 characters'',
                     Msg ''Description must be less than 1000 characters'']\<rparr>), db))
   \<and> (t = [] \<or> d = [] \<longrightarrow>
      createSurvey db now (Decoded \<lparr>Title = t, Description = d\<rparr>) =
        ((StatusBadRequest,
          \<lparr>Status = ''error'', Message = ''Invalid request data'', Data = NoData,
           Errors = [Error (ErrRequired ((if t = [] then [''Title''] else [])
                                         @ (if d = [] then [''Description''] else [])))]\<rparr>),
         db))
   \<and> (Atoi surveyID = Inr sID \<and> sID \<in> sv_id ` set (surveys db)
      \<and> (u = [] \<or> body_data = None) \<longrightarrow>
      createSurveyResponse db now surveyID
           (Decoded \<lparr>UserIdentifier = u, ResponseData = body_data\<rparr>) =
        ((StatusBadRequest,
          \<lparr>Status = ''error'', Message = ''Invalid request data'', Data = NoData,
           Errors = [Error (ErrRequired
                      ((if u = [] then [''UserIdentifier''] else [])
                       @ (if body_data = None then [''ResponseData''] else [])))]\<rparr>),
         db))"
proof (intro conjI impI)
  assume "t \<noteq> [] \<and> d \<noteq> []"
  then have "t \<noteq> []" and "d \<noteq> []" by auto
  from createSurvey_bound [OF this, of db now]
  show "if length t < 3 \<or> 255 < length t \<or> 1000 < length d
       then createSurvey db now (Decoded \<lparr>Title = t, Description = d\<rparr>) =
              ((StatusUnprocessableEntity,
                \<lparr>Status = ''error'', Message = ''Failed to create survey'', Data = NoData,
                 Errors = map Msg
                   ((if length t < 3
                     then [''Title must be at least 3 characters long''] else [])
                    @ (if 255 < length t
                       then [''Title must be less than 255 characters''] else [])
                    @ (if 1000 < length d
                       then [''Description must be less than 1000 characters''] else []))\<rparr>),
               db)
       else fst (fst (createSurvey db now (Decoded \<lparr>Title = t, Description = d\<rparr>)))
              \<noteq> StatusUnprocessableEntity
            \<and> (\<forall>m. Msg m \<notin> set (Errors (snd (fst
                  (createSurvey db now (Decoded \<lparr>Title = t, Description = d\<rparr>))))))"
    by (auto simp: Let_def split: sum.splits)
next
  assume "Atoi surveyID = Inr sID \<and> sID \<in> sv_id ` set (surveys db) \<and> u \<noteq> []"
  then have "Atoi surveyID = Inr sID" and "sID \<in> sv_id ` set (surveys db)" and "u \<noteq> []"
    by auto
  from createSurveyResponse_bound [OF this, of now data]
  show "if length u < 3 \<or> 100 < length u
       then createSurveyResponse db now surveyID
              (Decoded \<lparr>UserIdentifier = u, ResponseData = Some data\<rparr>) =
              ((StatusUnprocessableEntity,
                \<lparr>Status = ''error'', Message = ''Failed to submit survey response'',
                 Data = NoData,
                 Errors = map Msg
                   ((if length u < 3
                     then [''User identifier must be at least 3 characters long''] else [])
                    @ (if 100 < length u
                       then [''User identifier must be less than 100 characters'']
                       else []))\<rparr>),
               db)
       else fst (fst (createSurveyResponse db now surveyID
                        (Decoded \<lparr>UserIdentifier = u, ResponseData = Some data\<rparr>)))
              \<noteq> StatusUnprocessableEntity
            \<and> (\<forall>m. Msg m \<notin> set (Errors (snd (fst
                  (createSurveyResponse db now surveyID
                     (Decoded \<lparr>UserIdentifier = u, ResponseData = Some data\<rparr>))))))"
    by (auto simp: Let_def split: sum.splits)
next
  assume long: "255 < length t \<and> 1000 < length d"
  then have "t \<noteq> []" and "d \<noteq> []" by auto
  from createSurvey_bound [OF this, of db now] long
  show "createSurvey db now (Decoded \<lparr>Title = t, Description = d\<rparr>) =
        ((StatusUnprocessableEntity,
          \<lparr>Status = ''error'', Message = ''Failed to create survey'', Data = NoData,
           Errors = [Msg ''Title must be less than 255 characters'',
                     Msg ''Description must be less than 1000 characters'']\<rparr>), db)"
    by (simp add: Let_def)
next
  assume "t = [] \<or> d = []"
  then show "createSurvey db now (Decoded \<lparr>Title = t, Description = d\<rparr>) =
        ((StatusBadRequest,
          \<lparr>Status = ''error'', Message = ''Invalid request data'', Data = NoData,
           Errors = [Error (ErrRequired ((if t = [] then [''Title''] else [])
                                         @ (if d = [] then [''Description''] else [])))]\<rparr>),
         db)"
    by (rule createSurvey_unbound)
next
  assume "Atoi surveyID = Inr sID \<and> sID \<in> sv_id ` set (surveys db)
      \<and> (u = [] \<or> body_data = None)"
  then have "Atoi surveyID = Inr sID" and "sID \<in> sv_id ` set (surveys db)"
    and "u = [] \<or> body_data = None"
    by auto
  then show "createSurveyResponse db now surveyID
           (Decoded \<lparr>UserIdentifier = u, ResponseData = body_data\<rparr>) =
        ((StatusBadRequest,
          \<lparr>Status = ''error'', Message = ''Invalid request data'', Data = NoData,
           Errors = [Error (ErrRequired
                      ((if u = [] then [''UserIdentifier''] else [])
                       @ (if body_data = None then [''ResponseData''] else [])))]\<rparr>),
         db)"
    by (rule createSurveyResponse_unbound)
qed

theorem validation_collects_all_messages_witness:
  "255 < length (replicate 256 (CHR ''a'')) \<and> 1000 < length (replicate 1001 (CHR ''b''))
   \<and> createSurvey empty_database 0
        (Decoded \<lparr>Title = replicate 256 (CHR ''a''),
                  Description = replicate 1001 (CHR ''b'')\<rparr>) =
       ((StatusUnprocessableEntity,
         \<lparr>Status = ''error'', Message = ''Failed to create survey'', Data = NoData,
          Errors = [Msg ''Title must be less than 255 characters'',
                    Msg ''Description must be less than 1000 characters'']\<rparr>),
        empty_database)
   \<and> createSurvey empty_database 0
        (Decoded \<lparr>Title = ''ab'', Description = replicate 1001 (CHR ''b'')\<rparr>) =
       ((StatusUnprocessableEntity,
         \<lparr>Status = ''error'', Message = ''Failed to create survey'', Data = NoData,
          Errors = [Msg ''Title must be at least 3 characters long'',
                    Msg ''Description must be less than 1000 characters'']\<rparr>),
        empty_database)
   \<and> createSurveyResponse sample_database 0 ''1''
        (Decoded \<lparr>UserIdentifier = ''ab'', ResponseData = Some ''[5]''\<rparr>) =
       ((StatusUnprocessableEntity,
         \<lparr>Status = ''error'', Message = ''Failed to submit survey response'', Data = NoData,
          Errors = [Msg ''User identifier must be at least 3 characters long'']\<rparr>),
        sample_database)
   \<and> fst (fst (createSurvey empty_database 0
                  (Decoded \<lparr>Title = ''abc'', Description = ''d''\<rparr>)))
       \<noteq> StatusUnprocessableEntity"
proof -
  have len: "255 < length (replicate 256 (CHR ''a''))
             \<and> 1000 < length (replicate 1001 (CHR ''b''))"
    by simp
  have known: "Atoi ''1'' = Inr 1 \<and> 1 \<in> sv_id ` set (surveys sample_database) \<and> ''ab'' \<noteq> []"
    by (simp add: Atoi_1 sample_database_def)
  show ?thesis
    using validation_collects_all_messages
            [of "replicate 256 (CHR ''a'')" "replicate 1001 (CHR ''b'')" empty_database 0
                "''1''" 1 "''ab''" "''[5]''" "Some ''[5]''"]
          validation_collects_all_messages
            [of "''ab''" "replicate 1001 (CHR ''b'')" empty_database 0
                "''1''" 1 "''ab''" "''[5]''" "Some ''[5]''"]
          validation_collects_all_messages
            [of "''ab''" "replicate 1001 (CHR ''b'')" sample_database 0
                "''1''" 1 "''ab''" "''[5]''" "Some ''[5]''"]
          validation_collects_all_messages
            [of "''abc''" "''d''" empty_database 0
                "''1''" 1 "''ab''" "''[5]''" "Some ''[5]''"]
          len known
    by simp
qed

text \<open>
  Where claim C6 as worded fails: an empty title breaks the lower bound of 3 and a
  description of 1001 bytes breaks the upper bound of 1000, yet the reply is the 400 of
  the binding and names neither violation; likewise for a response with an empty user
  identifier.
\<close>

theorem validation_cut_short_by_required_fields:
  "length ('''' :: string) < 3 \<and> 1000 < length (replicate 1001 (CHR ''b''))
   \<and> createSurvey empty_database 0
        (Decoded \<lparr>Title = '''', Description = replicate 1001 (CHR ''b'')\<rparr>) =
       ((StatusBadRequest,
         \<lparr>Status = ''error'', Message = ''Invalid request data'', Data = NoData,
          Errors = [Error (ErrRequired [''Title''])]\<rparr>), empty_database)
   \<and> createSurveyResponse sample_database 0 ''1''
        (Decoded \<lparr>UserIdentifier = '''', ResponseData = Some ''[5]''\<rparr>) =
       ((StatusBadRequest,
         \<lparr>Status = ''error'', Message = ''Invalid request data'', Data = NoData,
          Errors = [Error (ErrRequired [''UserIdentifier''])]\<rparr>), sample_database)"
  by (simp add: createSurvey_def createSurveyResponse_def Atoi_1 survey_exists_def
        sample_database_def ShouldBindJSON_CreateSurveyRequest_def
        ShouldBindJSON_CreateResponseRequest_def)

section \<open>Listing\<close>

lemma order_by_desc_sorted: "sorted_wrt (\<lambda>a b. key a \<ge> key b) (order_by_desc key rows)"
proof -
  have "sorted (map (\<lambda>r. - key r) (sort_key (\<lambda>r. - key r) rows))"
    by (rule sorted_sort_key)
  then show ?thesis
    by (simp add: order_by_desc_def sorted_map)
qed

lemma order_by_desc_mset: "mset (order_by_desc key rows) = mset rows"
  by (simp add: order_by_desc_def)

lemma order_by_desc_set: "set (order_by_desc key rows) = set rows"
  by (simp add: order_by_desc_def)

text \<open>
  Claim C8. \<open>getSurveys\<close> answers 200 with a list that is ordered by \<open>CreatedAt\<close>
  descending and holds, with multiplicity, exactly the survey rows of the store, each with
  \<open>ResponsesCount\<close> the number of response rows that carry its id; a survey without
  responses is in the list with count 0.
\<close>

theorem list_surveys_all_with_counts_newest_first:
  "\<exists>xs. getSurveys db =
          (StatusOK, \<lparr>Status = ''success'', Message = [], Data = Surveys xs, Errors = []\<rparr>)
        \<and> sorted_wrt (\<lambda>a b. S_CreatedAt a \<ge> S_CreatedAt b) xs
        \<and> mset xs =
            mset (map (\<lambda>s.
                    \<lparr>S_ID = sv_id s, S_Title = sv_title s, S_Description = sv_description s,
                     S_CreatedAt = sv_created_at s, S_UpdatedAt = sv_updated_at s,
                     S_ResponsesCount =
                       int (length (filter (\<lambda>sr. sr_survey_id sr = sv_id s)
                                           (survey_responses db)))\<rparr>)
                  (surveys db))"
proof -
  define annotate where "annotate = (\<lambda>s::survey_row.
      \<lparr>S_ID = sv_id s, S_Title = sv_title s, S_Description = sv_description s,
       S_CreatedAt = sv_created_at s, S_UpdatedAt = sv_updated_at s,
       S_ResponsesCount =
         int (length (filter (\<lambda>sr. sr_survey_id sr = sv_id s) (survey_responses db)))\<rparr>)"
  define xs where "xs = map annotate (order_by_desc sv_created_at (surveys db))"
  have reply: "getSurveys db =
      (StatusOK, \<lparr>Status = ''success'', Message = [], Data = Surveys xs, Errors = []\<rparr>)"
    by (simp add: getSurveys_def xs_def annotate_def)
  have created: "\<And>s. S_CreatedAt (annotate s) = sv_created_at s"
    by (simp add: annotate_def)
  have ordered: "sorted_wrt (\<lambda>a b. S_CreatedAt a \<ge> S_CreatedAt b) xs"
    using order_by_desc_sorted [of sv_created_at "surveys db"]
    by (simp add: xs_def sorted_wrt_map created)
  have "mset xs = image_mset annotate (mset (order_by_desc sv_created_at (surveys db)))"
    by (simp add: xs_def)
  then have every: "mset xs = mset (map annotate (surveys db))"
    by (simp add: order_by_desc_mset)
  from reply ordered every show ?thesis
    unfolding annotate_def by blast
qed

theorem list_surveys_all_with_counts_newest_first_witness:
  "getSurveys sample_database =
     (StatusOK,
      \<lparr>Status = ''success'', Message = [],
       Data = Surveys
         [\<lparr>S_ID = 2, S_Title = ''Second Survey'', S_Description = ''No answers yet'',
           S_CreatedAt = Hour, S_UpdatedAt = Hour, S_ResponsesCount = 0\<rparr>,
          \<lparr>S_ID = 1, S_Title = ''Test Survey'', S_Description = ''Test Description'',
           S_CreatedAt = 0, S_UpdatedAt = 0, S_ResponsesCount = 2\<rparr>],
       Errors = []\<rparr>)"
  using list_surveys_all_with_counts_newest_first [of sample_database]
  by (simp add: getSurveys_def order_by_desc_def sample_database_def response_1_def
        response_2_def Hour_def)


lemma filter_unique_key:
  assumes "distinct (map f xs)" and "k \<in> f ` set xs"
  shows "\<exists>x. filter (\<lambda>y. k = f y) xs = [x] \<and> f x = k"
  using assms
proof (induction xs)
  case Nil
  then show ?case by simp
next
  case (Cons a xs)
  show ?case
  proof (cases "k = f a")
    case True
    with Cons.prems(1) have "\<forall>y \<in> set xs. k \<noteq> f y" by auto
    then have "filter (\<lambda>y. k = f y) xs = []" by (simp add: filter_empty_conv)
    with True show ?thesis by simp
  next
    case False
    with Cons.prems have "distinct (map f xs)" and "k \<in> f ` set xs" by auto
    from Cons.IH [OF this] False show ?thesis by simp
  qed
qed

text \<open>Under the keys of the schema the join pairs every response with one survey row.\<close>

lemma join_surveys_fst:
  assumes "distinct (map sv_id S)" and "\<forall>r \<in> set R. sr_survey_id r \<in> sv_id ` set S"
  shows "map fst (join_surveys S R) = R"
  using assms(2)
proof (induction R)
  case Nil
  then show ?case by (simp add: join_surveys_def)
next
  case (Cons r R)
  then have "sr_survey_id r \<in> sv_id ` set S" by simp
  from filter_unique_key [OF assms(1) this]
  obtain s where "filter (\<lambda>y. sr_survey_id r = sv_id y) S = [s]" by blast
  moreover have "map fst (join_surveys S R) = R"
    using Cons by simp
  ultimately show ?case
    by (simp add: join_surveys_def)
qed

lemma join_surveys_key: "(sr, s) \<in> set (join_surveys S R) \<Longrightarrow> sv_id s = sr_survey_id sr"
  by (auto simp: join_surveys_def)


text \<open>
  Claim C10. \<open>getUserResponses\<close> tests nothing about the identifier: for every string
  the reply is 200. With the keys of the schema in force, the list holds, with
  multiplicity, exactly the response rows whose \<open>user_identifier\<close> equals the string
  (none, when no row does), each with its columns unchanged.
\<close>

theorem user_responses_exact_match_no_validation:
  "fst (getUserResponses db clock userIdentifier) = StatusOK
   \<and> (referential_integrity db \<longrightarrow>
        (\<exists>xs. getUserResponses db clock userIdentifier =
                (StatusOK,
                 \<lparr>Status = ''success'', Message = [], Data = UserResponses xs,
                  Errors = []\<rparr>)
              \<and> mset (map (\<lambda>x. (U_ID x, S_ID (U_Survey x), U_UserIdentifier x,
                                  U_ResponseData x, U_CreatedAt x, U_UpdatedAt x)) xs) =
                  mset (map (\<lambda>r. (sr_id r, sr_survey_id r, sr_user_identifier r,
                                    sr_response_data r, sr_created_at r, sr_updated_at r))
                            (filter (\<lambda>r. sr_user_identifier r = userIdentifier)
                                    (survey_responses db)))))"
proof (intro conjI impI)
  show "fst (getUserResponses db clock userIdentifier) = StatusOK"
    by (simp add: getUserResponses_def Let_def)
next
  assume "referential_integrity db"
  then have keys: "distinct (map sv_id (surveys db))"
    and refs: "\<forall>r \<in> set (survey_responses db). sr_survey_id r \<in> sv_id ` set (surveys db)"
    by (auto simp: referential_integrity_def)
  define joined where "joined = join_surveys (surveys db) (survey_responses db)"
  define hits where
    "hits = filter (\<lambda>(sr, s). sr_user_identifier sr = userIdentifier) joined"
  define rows where "rows = order_by_desc (\<lambda>(sr, s). sr_updated_at sr) hits"
  define build where "build = (\<lambda>(k::nat, sr::response_row, s::survey_row).
      \<lparr>U_ID = sr_id sr,
       U_Survey = \<lparr>S_ID = sv_id s, S_Title = sv_title s,
                   S_Description = sv_description s, S_CreatedAt = zero_Time,
                   S_UpdatedAt = zero_Time, S_ResponsesCount = 0\<rparr>,
       U_UserIdentifier = sr_user_identifier sr,
       U_ResponseData = sr_response_data sr,
       U_CreatedAt = sr_created_at sr, U_UpdatedAt = sr_updated_at sr,
       U_Editable = time_Since (clock k) (sr_created_at sr) < 24 * Hour\<rparr>)"
  define xs where "xs = map build (enumerate 0 rows)"
  define out where "out = (\<lambda>x::UserResponse. (U_ID x, S_ID (U_Survey x), U_UserIdentifier x,
                                 U_ResponseData x, U_CreatedAt x, U_UpdatedAt x))"
  define col where "col = (\<lambda>r::response_row. (sr_id r, sr_survey_id r, sr_user_identifier r,
                                 sr_response_data r, sr_created_at r, sr_updated_at r))"
  have reply: "getUserResponses db clock userIdentifier =
      (StatusOK,
       \<lparr>Status = ''success'', Message = [], Data = UserResponses xs, Errors = []\<rparr>)"
    by (simp add: getUserResponses_def Let_def xs_def build_def rows_def hits_def joined_def)
  have fst_joined: "map fst joined = survey_responses db"
    unfolding joined_def by (rule join_surveys_fst [OF keys refs])
  have fst_hits: "map fst hits =
      filter (\<lambda>r. sr_user_identifier r = userIdentifier) (survey_responses db)"
  proof -
    have "map fst hits = filter (\<lambda>r. sr_user_identifier r = userIdentifier) (map fst joined)"
      by (simp add: hits_def filter_map comp_def case_prod_unfold)
    then show ?thesis by (simp add: fst_joined)
  qed
  have rows_set: "set rows = set hits"
    by (simp add: rows_def order_by_desc_set)
  have same: "out (build kp) = col (fst (snd kp))" if "kp \<in> set (enumerate 0 rows)" for kp
  proof -
    obtain k sr s where kp: "kp = (k, sr, s)" by (cases kp) auto
    from that have "snd kp \<in> set (map snd (enumerate 0 rows))"
      by (metis imageI list.set_map)
    then have "snd kp \<in> set rows"
      by (simp only: map_snd_enumerate)
    with kp have "(sr, s) \<in> set rows"
      by simp
    then have "(sr, s) \<in> set joined"
      by (simp add: rows_set hits_def)
    then have "sv_id s = sr_survey_id sr"
      unfolding joined_def by (rule join_surveys_key)
    then show ?thesis by (simp add: kp out_def build_def col_def)
  qed
  have "map out xs = map (\<lambda>kp. col (fst (snd kp))) (enumerate 0 rows)"
    by (simp add: xs_def same)
  also have "\<dots> = map ((\<lambda>p. col (fst p)) \<circ> snd) (enumerate 0 rows)"
    by (simp add: comp_def)
  also have "\<dots> = map (\<lambda>p. col (fst p)) (map snd (enumerate 0 rows))"
    by (simp only: map_map)
  also have "\<dots> = map (\<lambda>p. col (fst p)) rows"
    by (simp only: map_snd_enumerate)
  finally have "mset (map out xs) = image_mset (\<lambda>p. col (fst p)) (mset rows)"
    by simp
  also have "\<dots> = image_mset (\<lambda>p. col (fst p)) (mset hits)"
    by (simp add: rows_def order_by_desc_mset)
  also have "\<dots> = mset (map col (map fst hits))"
    by (simp add: multiset.map_comp comp_def)
  finally have "mset (map out xs) =
      mset (map col (filter (\<lambda>r. sr_user_identifier r = userIdentifier)
                            (survey_responses db)))"
    by (simp add: fst_hits)
  with reply show "\<exists>xs. getUserResponses db clock userIdentifier =
                (StatusOK,
                 \<lparr>Status = ''success'', Message = [], Data = UserResponses xs,
                  Errors = []\<rparr>)
              \<and> mset (map (\<lambda>x. (U_ID x, S_ID (U_Survey x), U_UserIdentifier x,
                                  U_ResponseData x, U_CreatedAt x, U_UpdatedAt x)) xs) =
                  mset (map (\<lambda>r. (sr_id r, sr_survey_id r, sr_user_identifier r,
                                    sr_response_data r, sr_created_at r, sr_updated_at r))
                            (filter (\<lambda>r. sr_user_identifier r = userIdentifier)
                                    (survey_responses db)))"
    unfolding out_def col_def by blast
qed

lemma sample_database_integrity: "referential_integrity sample_database"
  by (simp add: referential_integrity_def sample_database_def response_1_def response_2_def)

theorem user_responses_exact_match_no_validation_witness:
  "referential_integrity sample_database
   \<and> length ''ab'' < 3
   \<and> getUserResponses sample_database (\<lambda>k. 2 * Hour) ''ab'' =
       (StatusOK,
        \<lparr>Status = ''success'', Message = [],
         Data = UserResponses
           [\<lparr>U_ID = 2,
             U_Survey = \<lparr>S_ID = 1, S_Title = ''Test Survey'',
                         S_Description = ''Test Description'', S_CreatedAt = zero_Time,
                         S_UpdatedAt = zero_Time, S_ResponsesCount = 0\<rparr>,
             U_UserIdentifier = ''ab'', U_ResponseData = ''[3]'',
             U_CreatedAt = Hour, U_UpdatedAt = Hour, U_Editable = True\<rparr>],
         Errors = []\<rparr>)
   \<and> getUserResponses sample_database (\<lambda>k. 2 * Hour) ''TestUser'' =
       (StatusOK,
        \<lparr>Status = ''success'', Message = [], Data = UserResponses [], Errors = []\<rparr>)"
  using user_responses_exact_match_no_validation
          [of sample_database "\<lambda>k. 2 * Hour" "''ab''"]
        user_responses_exact_match_no_validation
          [of sample_database "\<lambda>k. 2 * Hour" "''TestUser''"]
        sample_database_integrity
  by (simp add: getUserResponses_def join_surveys_def order_by_desc_def enumerate_eq_zip
        sample_database_def response_1_def response_2_def time_Since_def time_Sub_def
        maxDuration_def minDuration_def Hour_def)

section \<open>The handlers keep the keys of the schema\<close>

lemma empty_database_integrity: "referential_integrity empty_database"
  by (simp add: referential_integrity_def empty_database_def)

lemma insert_survey_integrity:
  assumes "referential_integrity db" and "insert_survey db t d ts = Inr (i, db')"
  shows "referential_integrity db'"
proof -
  from assms(2) obtain n where
    n: "next_rowid (surveys_seq db) (map sv_id (surveys db)) = Inr n"
    by (cases "next_rowid (surveys_seq db) (map sv_id (surveys db))")
       (auto simp: insert_survey_def)
  from next_rowid_fresh [OF n] assms show ?thesis
    by (auto simp: referential_integrity_def insert_survey_def n Let_def)
qed

lemma insert_response_integrity:
  assumes "referential_integrity db" and "survey_exists db sID"
    and "insert_response db sID u data ts = Inr (i, db')"
  shows "referential_integrity db'"
  using assms
  by (auto simp: referential_integrity_def insert_response_def survey_exists_def list_ex_iff
        Let_def split: option.splits sum.splits)

lemma update_response_integrity:
  assumes "referential_integrity db" and "update_response db data ts rID sID = Inr db'"
  shows "referential_integrity db'"
  using assms
  by (auto simp: referential_integrity_def update_response_def Let_def
      split: option.splits if_splits)

lemma createSurvey_integrity:
  assumes "referential_integrity db"
  shows "referential_integrity (snd (createSurvey db now b))"
proof -
  have "snd (createSurvey db now b) = db
        \<or> (\<exists>t d i. insert_survey db t d (CURRENT_TIMESTAMP now)
                     = Inr (i, snd (createSurvey db now b)))"
    by (auto simp: createSurvey_def Let_def split: sum.splits option.splits prod.splits)
  then show ?thesis
    using assms insert_survey_integrity [OF assms] by auto
qed

lemma createSurveyResponse_integrity:
  assumes "referential_integrity db"
  shows "referential_integrity (snd (createSurveyResponse db now surveyID b))"
proof -
  have "snd (createSurveyResponse db now surveyID b) = db
        \<or> (\<exists>sID u data i. survey_exists db sID
              \<and> insert_response db sID u data (CURRENT_TIMESTAMP now)
                  = Inr (i, snd (createSurveyResponse db now surveyID b)))"
    by (auto simp: createSurveyResponse_def Let_def
        split: sum.splits option.splits prod.splits)
  then show ?thesis
    using assms insert_response_integrity [OF assms] by auto
qed

lemma updateSurveyResponse_integrity:
  assumes "referential_integrity db"
  shows "referential_integrity (snd (updateSurveyResponse db clock surveyID responseID b))"
proof -
  have "snd (updateSurveyResponse db clock surveyID responseID b) = db
        \<or> (\<exists>data ts rID sID.
              update_response db data ts rID sID
                = Inr (snd (updateSurveyResponse db clock surveyID responseID b)))"
    by (auto simp: updateSurveyResponse_def Let_def split: sum.splits option.splits)
  then show ?thesis
    using assms update_response_integrity [OF assms] by auto
qed


end
